theory Spec2Isabelle
  imports Complex_Main
begin

section \<open>The stellar-structure notebook\<close>

text \<open>
  The development embeds \<^verbatim>\<open>02_stellar_structure/stellar_structure.ipynb\<close>. The
  notebook is a fill-in template: \<^verbatim>\<open>M_deriv\<close>, \<^verbatim>\<open>calc_epsilon\<close>, the physical
  constants, the comparison inside \<^verbatim>\<open>T_deriv\<close> and the whole control structure of
  \<^verbatim>\<open>make_star\<close> (grid, initial conditions, loop header, surface test, report,
  truncation) are written out; the bodies of \<^verbatim>\<open>P_deriv\<close>, \<^verbatim>\<open>T_deriv_rad\<close>,
  \<^verbatim>\<open>L_deriv\<close>, \<^verbatim>\<open>calc_rho\<close>, \<^verbatim>\<open>calc_kappa\<close>, two assignments of \<^verbatim>\<open>T_deriv\<close> and
  the update inside the loop of \<^verbatim>\<open>make_star\<close> are blanks
  (\<^verbatim>\<open># ADD CODE HERE\<close>, \<^verbatim>\<open># FINISH THIS LINE...\<close>).

  Python floats are modelled as real numbers: rounding, overflow, infinities and NaN are
  outside the model. A power with a fractional exponent is \<open>powr\<close>, which agrees with
  Python's \<^verbatim>\<open>**\<close> on a positive base. A division by zero on the array entries gives
  \<open>inf\<close> or \<open>nan\<close> in numpy and 0 in the model, and a \<open>nan\<close> fails every comparison
  of the source; what is proved of the loop is therefore stated through the surface
  test itself wherever the difference matters.
\<close>

subsection \<open>Physical constants\<close>

text \<open>The constants of the notebook, in CGS units, with the decimal values of the source.\<close>

definition G :: real where
  "G = 67 / 10 ^ 9"

definition c :: real where
  "c = 3 * 10 ^ 10"

definition k :: real where
  "k = 14 / 10 ^ 17"

definition a :: real where
  "a = 76 / 10 ^ 16"

definition sigmaT :: real where
  "sigmaT = 67 / 10 ^ 26"

definition mH :: real where
  "mH = 17 / 10 ^ 25"

text \<open>Constants for the p-p chain: each is a product of three literals in the source.\<close>

definition Q :: real where
  "Q = (262 / 10) * 10 ^ 6 * (16 / 10 ^ 13)"

definition S0 :: real where
  "S0 = (4 / 10 ^ 46) * 10 ^ 3 * (16 / 10 ^ 13)"

definition EG :: real where
  "EG = 500 * 10 ^ 3 * (16 / 10 ^ 13)"

definition gamma :: real where
  "gamma = 5 / 3"

subsection \<open>Functions written out in the source\<close>

definition M_deriv :: "real \<Rightarrow> real \<Rightarrow> real" where
  "M_deriv r rho = 4 * pi * r\<^sup>2 * rho"

definition calc_epsilon :: "real \<Rightarrow> real \<Rightarrow> real \<Rightarrow> real" where
  "calc_epsilon rho T X =
     (let mu = mH / 2 in
      (2 powr (5 / 3) * sqrt 2 / sqrt 3) * ((rho * X\<^sup>2) / (mH\<^sup>2 * sqrt mu)) *
      (Q * S0) * (EG powr (1 / 6) / (k * T) powr (2 / 3)) *
      exp (- 3 * (EG / (4 * k * T)) powr (1 / 3)))"

text \<open>
  The branch of \<^verbatim>\<open>T_deriv\<close>: the two gradients are compared by absolute value, and the
  convective one is returned when the radiative one is steeper.
\<close>

definition T_deriv_select :: "real \<Rightarrow> real \<Rightarrow> real" where
  "T_deriv_select dTdr_rad dTdr_conv =
     (if \<bar>dTdr_rad\<bar> > \<bar>dTdr_conv\<bar> then dTdr_conv else dTdr_rad)"

subsection \<open>Blanks of the template\<close>

text \<open>
  Modelled from the spec: the body of \<^verbatim>\<open>P_deriv\<close> is a blank of the notebook. Section
  4.5 of the specification and the notebook's own formula give
  \<open>dP/dr = - G M rho / r^2\<close>.
\<close>

definition P_deriv :: "real \<Rightarrow> real \<Rightarrow> real \<Rightarrow> real" where
  "P_deriv r M rho = - G * M * rho / r\<^sup>2"

text \<open>
  Modelled from the spec: the body of \<^verbatim>\<open>T_deriv_rad\<close> is a blank of the notebook.
  Section 4.5: \<open>dT/dr = - (3 L kappa rho) / (4 pi r^2 * 4 a c T^3)\<close>.
\<close>

definition T_deriv_rad :: "real \<Rightarrow> real \<Rightarrow> real \<Rightarrow> real \<Rightarrow> real \<Rightarrow> real" where
  "T_deriv_rad r L kappa rho T = - (3 * L * kappa * rho) / (4 * pi * r\<^sup>2 * 4 * a * c * T ^ 3)"

text \<open>
  Modelled from the spec: the body of \<^verbatim>\<open>L_deriv\<close> is a blank of the notebook.
  Section 4.5: \<open>dL/dr = 4 pi r^2 rho epsilon\<close>.
\<close>

definition L_deriv :: "real \<Rightarrow> real \<Rightarrow> real \<Rightarrow> real" where
  "L_deriv r rho epsilon = 4 * pi * r\<^sup>2 * rho * epsilon"

text \<open>
  Modelled from the spec: the body of \<^verbatim>\<open>calc_rho\<close> is a blank of the notebook.
  Section 4.2: \<open>rho = (mbar / (k_B T)) P\<close>, the inverted ideal-gas law.
\<close>

definition calc_rho :: "real \<Rightarrow> real \<Rightarrow> real \<Rightarrow> real" where
  "calc_rho P T mbar = (mbar / (k * T)) * P"

text \<open>
  Modelled from the spec: the body of \<^verbatim>\<open>calc_kappa\<close> is a blank of the notebook.
  Section 4.3: \<open>kappa = sigma_T / (2 m_H) (1 + X)\<close>.
\<close>

definition calc_kappa :: "real \<Rightarrow> real" where
  "calc_kappa X = sigmaT / (2 * mH) * (1 + X)"

text \<open>
  Modelled from the spec: the assignments of \<^verbatim>\<open>dTdr_rad\<close> and \<^verbatim>\<open>dTdr_conv\<close> in
  \<^verbatim>\<open>T_deriv\<close> are blanks of the notebook. Section 4.6 computes the radiative gradient
  with \<^verbatim>\<open>T_deriv_rad\<close> and the convective threshold as
  \<open>((gamma - 1) / gamma) (T / P) dP/dr\<close>; the comparison is the source's.
\<close>

definition T_deriv :: "real \<Rightarrow> real \<Rightarrow> real \<Rightarrow> real \<Rightarrow> real \<Rightarrow> real \<Rightarrow> real \<Rightarrow> real" where
  "T_deriv r L kappa rho T P dPdr =
     (let dTdr_rad = T_deriv_rad r L kappa rho T;
          dTdr_conv = ((gamma - 1) / gamma) * (T / P) * dPdr
      in T_deriv_select dTdr_rad dTdr_conv)"

subsection \<open>The working arrays of \<^verbatim>\<open>make_star\<close>\<close>

text \<open>
  \<^verbatim>\<open>make_star\<close> owns eight arrays of \<^verbatim>\<open>nstep\<close> entries: the radius grid and seven
  arrays initialised with zeros and filled index by index.
\<close>

record star_arrays =
  arr_r :: "real list"
  arr_M :: "real list"
  arr_P :: "real list"
  arr_T :: "real list"
  arr_L :: "real list"
  arr_rho :: "real list"
  arr_kappa :: "real list"
  arr_epsilon :: "real list"

text \<open>The seven values one iteration of the loop writes at index \<open>i\<close>.\<close>

record shell =
  sh_M :: real
  sh_P :: real
  sh_T :: real
  sh_L :: real
  sh_rho :: real
  sh_kappa :: real
  sh_epsilon :: real

datatype error = ZeroDivisionError | IndexError

text \<open>
  \<^verbatim>\<open>np.linspace(start, stop, num)\<close>: \<open>num\<close> equally spaced values from \<open>start\<close> to
  \<open>stop\<close> inclusive.
\<close>

definition linspace :: "real \<Rightarrow> real \<Rightarrow> nat \<Rightarrow> real list" where
  "linspace start stop num =
     map (\<lambda>i. start + real i * ((stop - start) / real (num - 1))) [0..<num]"

definition put_shell :: "nat \<Rightarrow> shell \<Rightarrow> star_arrays \<Rightarrow> star_arrays" where
  "put_shell i s W =
     W\<lparr> arr_M := (arr_M W)[i := sh_M s],
        arr_P := (arr_P W)[i := sh_P s],
        arr_T := (arr_T W)[i := sh_T s],
        arr_L := (arr_L W)[i := sh_L s],
        arr_rho := (arr_rho W)[i := sh_rho s],
        arr_kappa := (arr_kappa W)[i := sh_kappa s],
        arr_epsilon := (arr_epsilon W)[i := sh_epsilon s] \<rparr>"

text \<open>The surface test of the loop, on the entries of index \<open>i\<close>.\<close>

definition surface :: "star_arrays \<Rightarrow> nat \<Rightarrow> bool" where
  "surface W i = (arr_P W ! i \<le> 0 \<or> arr_T W ! i \<le> 0 \<or> arr_rho W ! i \<le> 0)"

text \<open>
  The loop \<^verbatim>\<open>for i in range(1, nstep)\<close>, entered at \<open>i\<close>: the update of the
  iteration (a blank of the template, here the parameter \<open>body\<close>, which computes the
  seven entries of index \<open>i\<close>), then the surface test and its \<^verbatim>\<open>break\<close>. The result
  is the value of \<open>i\<close> after the loop and the arrays.
\<close>

function star_loop ::
  "(nat \<Rightarrow> star_arrays \<Rightarrow> shell) \<Rightarrow> nat \<Rightarrow> nat \<Rightarrow> star_arrays \<Rightarrow> nat \<times> star_arrays" where
  "star_loop body nstep i W =
     (if surface (put_shell i (body i W) W) i then (i, put_shell i (body i W) W)
      else if Suc i < nstep then star_loop body nstep (Suc i) (put_shell i (body i W) W)
      else (i, put_shell i (body i W) W))"
  by pat_completeness auto
termination
  by (relation "measure (\<lambda>(body, nstep, i, W). nstep - i)") auto

declare star_loop.simps [simp del]

text \<open>The slices \<^verbatim>\<open>[0:m]\<close> of the eight arrays.\<close>

definition cut_arrays :: "nat \<Rightarrow> star_arrays \<Rightarrow> star_arrays" where
  "cut_arrays m W =
     \<lparr> arr_r = take m (arr_r W), arr_M = take m (arr_M W), arr_P = take m (arr_P W),
       arr_T = take m (arr_T W), arr_L = take m (arr_L W), arr_rho = take m (arr_rho W),
       arr_kappa = take m (arr_kappa W), arr_epsilon = take m (arr_epsilon W) \<rparr>"

text \<open>
  The end of \<^verbatim>\<open>make_star\<close>: the three printed values \<open>r_star\<close>, \<open>M_star\<close>,
  \<open>L_star\<close> (the format of the printed lines is not modelled) and the returned tuple,
  the arrays cut to \<^verbatim>\<open>[0:i+1]\<close>.
\<close>

definition finish :: "nat \<Rightarrow> star_arrays \<Rightarrow> (real \<times> real \<times> real) \<times> star_arrays" where
  "finish i W = ((arr_r W ! i, arr_M W ! i, arr_L W ! i), cut_arrays (Suc i) W)"

text \<open>
  The radius grid: \<^verbatim>\<open>r = np.linspace(0, rmax, nstep)\<close>, \<^verbatim>\<open>dr = r[1] - r[0]\<close>,
  \<^verbatim>\<open>r = r + dr / 2.0\<close>.
\<close>

definition star_dr :: "real \<Rightarrow> nat \<Rightarrow> real" where
  "star_dr rmax nstep = linspace 0 rmax nstep ! 1 - linspace 0 rmax nstep ! 0"

definition star_grid :: "real \<Rightarrow> nat \<Rightarrow> real list" where
  "star_grid rmax nstep = map (\<lambda>x. x + star_dr rmax nstep / 2) (linspace 0 rmax nstep)"

text \<open>The mean particle mass, the first assignment of \<^verbatim>\<open>make_star\<close>.\<close>

definition star_mbar :: "real \<Rightarrow> real \<Rightarrow> real" where
  "star_mbar X Y = mH * 2 / (1 + 3 * X + (1 / 2) * Y)"

text \<open>
  The arrays when the loop is entered: zeros, then the initial conditions at index 0.
  \<open>crho\<close> and \<open>ckappa\<close> stand for \<^verbatim>\<open>calc_rho\<close> and \<^verbatim>\<open>calc_kappa\<close>, blanks of the
  template.
\<close>

definition star_init ::
  "(real \<Rightarrow> real \<Rightarrow> real \<Rightarrow> real) \<Rightarrow> (real \<Rightarrow> real) \<Rightarrow> real \<Rightarrow> nat \<Rightarrow>
   real \<Rightarrow> real \<Rightarrow> real \<Rightarrow> real \<Rightarrow> star_arrays" where
  "star_init crho ckappa rmax nstep T0 P0 X Y =
     (let mbar = star_mbar X Y;
          z = replicate nstep 0;
          rho0 = crho P0 T0 mbar
      in \<lparr> arr_r = star_grid rmax nstep, arr_M = z[0 := 0], arr_P = z[0 := P0],
            arr_T = z[0 := T0], arr_L = z[0 := 0], arr_rho = z[0 := rho0],
            arr_kappa = z[0 := ckappa X],
            arr_epsilon = z[0 := calc_epsilon rho0 T0 X] \<rparr>)"

text \<open>
  The loop of \<^verbatim>\<open>make_star\<close> run from the initial arrays. The update of an
  iteration may read the composition, the mean particle mass and the step, which are
  passed to \<open>body\<close>.
\<close>

definition star_march ::
  "(real \<Rightarrow> real \<Rightarrow> real \<Rightarrow> real) \<Rightarrow> (real \<Rightarrow> real) \<Rightarrow>
   (real \<Rightarrow> real \<Rightarrow> real \<Rightarrow> nat \<Rightarrow> star_arrays \<Rightarrow> shell) \<Rightarrow> real \<Rightarrow> nat \<Rightarrow>
   real \<Rightarrow> real \<Rightarrow> real \<Rightarrow> real \<Rightarrow> nat \<times> star_arrays" where
  "star_march crho ckappa body rmax nstep T0 P0 X Y =
     star_loop (body X (star_mbar X Y) (star_dr rmax nstep)) nstep 1
       (star_init crho ckappa rmax nstep T0 P0 X Y)"

text \<open>
  \<^verbatim>\<open>make_star\<close> with its blanks, \<open>rmax\<close> and \<open>nstep\<close> as parameters. Python raises
  \<^verbatim>\<open>ZeroDivisionError\<close> in the first assignment when \<open>1 + 3 X + 0.5 Y\<close> is zero, and
  \<^verbatim>\<open>IndexError\<close> at \<^verbatim>\<open>r[1]\<close> when the grid has fewer than two points.
  Two failures of float arithmetic are outside the model: \<^verbatim>\<open>X**2\<close> in
  \<^verbatim>\<open>calc_epsilon\<close> raises \<^verbatim>\<open>OverflowError\<close> for \<open>|X|\<close> beyond about \<open>1.34e154\<close>, and
  the denominator of the first assignment can round to zero where the real number is
  not zero.
\<close>

definition make_star_gen ::
  "(real \<Rightarrow> real \<Rightarrow> real \<Rightarrow> real) \<Rightarrow> (real \<Rightarrow> real) \<Rightarrow>
   (real \<Rightarrow> real \<Rightarrow> real \<Rightarrow> nat \<Rightarrow> star_arrays \<Rightarrow> shell) \<Rightarrow> real \<Rightarrow> nat \<Rightarrow>
   real \<Rightarrow> real \<Rightarrow> real \<Rightarrow> real \<Rightarrow> error + (real \<times> real \<times> real) \<times> star_arrays" where
  "make_star_gen crho ckappa body rmax nstep T0 P0 X Y =
     (if 1 + 3 * X + (1 / 2) * Y = 0 then Inl ZeroDivisionError
      else if nstep < 2 then Inl IndexError
      else case star_march crho ckappa body rmax nstep T0 P0 X Y of
             (i, W) \<Rightarrow> Inr (finish i W))"

text \<open>
  Modelled from the spec: the update inside the loop of \<^verbatim>\<open>make_star\<close> is a blank of
  the notebook. Section 4.7, steps 3a to 3c (and the comments left in the loop): the
  derivatives are evaluated on the entries of index \<open>i - 1\<close>, each of \<open>M, P, T, L\<close>
  advances by derivative times \<open>dr\<close>, then \<open>rho, kappa, epsilon\<close> are computed from the
  new \<open>P\<close> and \<open>T\<close>.
\<close>

definition euler_body :: "real \<Rightarrow> real \<Rightarrow> real \<Rightarrow> nat \<Rightarrow> star_arrays \<Rightarrow> shell" where
  "euler_body X mbar dr i W =
     (let j = i - 1;
          dMdr = M_deriv (arr_r W ! j) (arr_rho W ! j);
          dPdr = P_deriv (arr_r W ! j) (arr_M W ! j) (arr_rho W ! j);
          dTdr = T_deriv (arr_r W ! j) (arr_L W ! j) (arr_kappa W ! j) (arr_rho W ! j)
                   (arr_T W ! j) (arr_P W ! j) dPdr;
          dLdr = L_deriv (arr_r W ! j) (arr_rho W ! j) (arr_epsilon W ! j);
          Mi = arr_M W ! j + dMdr * dr;
          Pi = arr_P W ! j + dPdr * dr;
          Ti = arr_T W ! j + dTdr * dr;
          Li = arr_L W ! j + dLdr * dr;
          rhoi = calc_rho Pi Ti mbar
      in \<lparr> sh_M = Mi, sh_P = Pi, sh_T = Ti, sh_L = Li, sh_rho = rhoi,
            sh_kappa = calc_kappa X, sh_epsilon = calc_epsilon rhoi Ti X \<rparr>)"

text \<open>The driver with the blanks filled in from the specification.\<close>

definition make_star_with ::
  "real \<Rightarrow> nat \<Rightarrow> real \<Rightarrow> real \<Rightarrow> real \<Rightarrow> real \<Rightarrow> error + (real \<times> real \<times> real) \<times> star_arrays" where
  "make_star_with rmax nstep T0 P0 X Y =
     make_star_gen calc_rho calc_kappa euler_body rmax nstep T0 P0 X Y"

text \<open>\<^verbatim>\<open>make_star\<close> itself: \<^verbatim>\<open>rmax = 1.0e12\<close> and \<^verbatim>\<open>nstep = 100000\<close>.\<close>

definition make_star ::
  "real \<Rightarrow> real \<Rightarrow> real \<Rightarrow> real \<Rightarrow> error + (real \<times> real \<times> real) \<times> star_arrays" where
  "make_star T0 P0 X Y = make_star_with (10 ^ 12) 100000 T0 P0 X Y"

subsection \<open>Reading the arrays\<close>

text \<open>All eight arrays have \<open>n\<close> entries, as \<^verbatim>\<open>np.zeros(r.shape)\<close> makes them.\<close>

definition arrays_len :: "nat \<Rightarrow> star_arrays \<Rightarrow> bool" where
  "arrays_len n W =
     (length (arr_r W) = n \<and> length (arr_M W) = n \<and> length (arr_P W) = n \<and>
      length (arr_T W) = n \<and> length (arr_L W) = n \<and> length (arr_rho W) = n \<and>
      length (arr_kappa W) = n \<and> length (arr_epsilon W) = n)"

text \<open>The seven computed entries of index \<open>j\<close>.\<close>

definition shell_at :: "star_arrays \<Rightarrow> nat \<Rightarrow> shell" where
  "shell_at W j =
     \<lparr> sh_M = arr_M W ! j, sh_P = arr_P W ! j, sh_T = arr_T W ! j, sh_L = arr_L W ! j,
       sh_rho = arr_rho W ! j, sh_kappa = arr_kappa W ! j, sh_epsilon = arr_epsilon W ! j \<rparr>"

subsection \<open>The reference form of the energy-generation rate\<close>

text \<open>
  The parametrization of section 4.4 of the specification,
  \<open>epsilon = C rho X^2 T^(-2/3) exp (- beta T^(-1/3))\<close>, with the two constants
  written from \<open>Q\<close>, \<open>S0\<close>, \<open>EG\<close>, \<open>k\<close>, \<open>mH\<close> and \<open>mu = mH / 2\<close>. It is the
  formula \<^verbatim>\<open>calc_epsilon\<close> is compared with, not a translation of the source.
\<close>

definition epsilon_C :: real where
  "epsilon_C =
     (2 powr (5 / 3) * sqrt 2 / sqrt 3) * Q * S0 * EG powr (1 / 6) /
     (mH\<^sup>2 * sqrt (mH / 2) * k powr (2 / 3))"

definition epsilon_beta :: real where
  "epsilon_beta = 3 * (EG / (4 * k)) powr (1 / 3)"

definition epsilon_reference :: "real \<Rightarrow> real \<Rightarrow> real \<Rightarrow> real" where
  "epsilon_reference rho T X =
     epsilon_C * rho * X\<^sup>2 * T powr (- 2 / 3) * exp (- epsilon_beta * T powr (- 1 / 3))"

section \<open>Properties\<close>

subsection \<open>Constants\<close>

lemma k_pos: "0 < k"
  by (simp add: k_def)

lemma mH_pos: "0 < mH"
  by (simp add: mH_def)

lemma EG_pos: "0 < EG"
  by (simp add: EG_def)

lemma Q_pos: "0 < Q"
  by (simp add: Q_def)

lemma S0_pos: "0 < S0"
  by (simp add: S0_def)

lemma G_pos: "0 < G"
  by (simp add: G_def)

subsection \<open>Equation of state\<close>

text \<open>
  C9. For \<open>T > 0\<close> and \<open>mbar > 0\<close>, \<open>calc_rho P T mbar\<close> is \<open>(mbar / (k T)) P\<close>; it is
  additive and homogeneous in \<open>P\<close>, it is a constant multiple of \<open>1 / T\<close>, and it is
  strictly positive when \<open>P\<close> is.
\<close>

theorem calc_rho_ideal_gas:
  assumes "0 < T" and "0 < mbar"
  shows "calc_rho P T mbar = (mbar / (k * T)) * P
       \<and> calc_rho (P + P') T mbar = calc_rho P T mbar + calc_rho P' T mbar
       \<and> calc_rho (s * P) T mbar = s * calc_rho P T mbar
       \<and> calc_rho P T mbar = (mbar * P / k) * (1 / T)
       \<and> (0 < P \<longrightarrow> 0 < calc_rho P T mbar)"
  using assms k_pos by (simp add: calc_rho_def field_simps)

theorem calc_rho_ideal_gas_witness:
  "calc_rho (10 ^ 18) (15 * 10 ^ 6) (10 / 10 ^ 25) = ((10 / 10 ^ 25) / (k * (15 * 10 ^ 6))) * 10 ^ 18
   \<and> calc_rho (3 * 10 ^ 18) (15 * 10 ^ 6) (10 / 10 ^ 25)
       = 3 * calc_rho (10 ^ 18) (15 * 10 ^ 6) (10 / 10 ^ 25)
   \<and> 0 < calc_rho (10 ^ 18) (15 * 10 ^ 6) (10 / 10 ^ 25)"
proof -
  have T: "(0::real) < 15 * 10 ^ 6" and m: "(0::real) < 10 / 10 ^ 25" and P: "(0::real) < 10 ^ 18"
    by simp_all
  from calc_rho_ideal_gas [OF T m, of "10 ^ 18" 0 3] P show ?thesis by blast
qed

subsection \<open>Energy-generation rate\<close>

text \<open>
  C8. For \<open>T > 0\<close>, every \<open>rho\<close> and every \<open>X\<close>, \<^verbatim>\<open>calc_epsilon\<close> equals the reference
  form \<open>C rho X^2 T^(-2/3) exp (- beta T^(-1/3))\<close>, and the constants \<open>C\<close> and
  \<open>beta\<close> are positive.
\<close>

theorem calc_epsilon_reference_form:
  assumes "0 < T"
  shows "calc_epsilon rho T X = epsilon_reference rho T X \<and> 0 < epsilon_C \<and> 0 < epsilon_beta"
proof -
  have a1: "(k * T) powr (2 / 3) = k powr (2 / 3) * T powr (2 / 3)"
    by (rule powr_mult)
  have a2: "T powr (- 2 / 3) = 1 / T powr (2 / 3)"
    by (simp add: powr_minus_divide)
  have "(EG / (4 * k * T)) powr (1 / 3) = ((EG / (4 * k)) * (1 / T)) powr (1 / 3)"
    by simp
  also have "\<dots> = (EG / (4 * k)) powr (1 / 3) * (1 / T) powr (1 / 3)"
    by (rule powr_mult)
  also have "(1 / T) powr (1 / 3) = T powr (- 1 / 3)"
    using assms by (simp add: powr_divide powr_minus_divide)
  finally have a3:
    "(EG / (4 * k * T)) powr (1 / 3) = (EG / (4 * k)) powr (1 / 3) * T powr (- 1 / 3)" .
  have eq: "calc_epsilon rho T X = epsilon_reference rho T X"
    unfolding calc_epsilon_def epsilon_reference_def epsilon_C_def epsilon_beta_def Let_def a1 a2 a3
    by (simp add: field_simps)
  have "0 < mH\<^sup>2 * sqrt (mH / 2) * k powr (2 / 3)"
    using mH_pos k_pos by simp
  moreover have "0 < (2 powr (5 / 3) * sqrt 2 / sqrt 3) * Q * S0 * EG powr (1 / 6)"
    using Q_pos S0_pos EG_pos by simp
  ultimately have C: "0 < epsilon_C"
    unfolding epsilon_C_def by (rule divide_pos_pos[rotated])
  have B: "0 < epsilon_beta"
    unfolding epsilon_beta_def using EG_pos k_pos by simp
  show ?thesis using eq C B by simp
qed

theorem calc_epsilon_reference_form_witness:
  "calc_epsilon 150 (15 * 10 ^ 6) (7 / 10) = epsilon_reference 150 (15 * 10 ^ 6) (7 / 10)
   \<and> 0 < epsilon_C \<and> 0 < epsilon_beta"
proof -
  have T: "(0::real) < 15 * 10 ^ 6" by simp
  from calc_epsilon_reference_form [OF T] show ?thesis by blast
qed

subsection \<open>Temperature-gradient selector\<close>

text \<open>
  C7. \<^verbatim>\<open>T_deriv\<close> computes the radiative gradient with \<^verbatim>\<open>T_deriv_rad\<close> and the
  convective threshold \<open>((gamma - 1) / gamma) (T / P) dP/dr\<close> with \<open>gamma = 5 / 3\<close>; it
  returns the convective value when the radiative one is larger in absolute value and
  the radiative one otherwise. The comparison is by magnitude: of two negative
  gradients the steeper radiative one loses, although it is the smaller number. The
  result is a function of the seven arguments of the call alone.
\<close>

theorem T_deriv_selects_by_magnitude:
  "T_deriv r L kappa rho T P dPdr =
     (if \<bar>T_deriv_rad r L kappa rho T\<bar> > \<bar>((gamma - 1) / gamma) * (T / P) * dPdr\<bar>
      then ((gamma - 1) / gamma) * (T / P) * dPdr
      else T_deriv_rad r L kappa rho T)
   \<and> gamma = 5 / 3
   \<and> T_deriv_select x y = (if \<bar>x\<bar> > \<bar>y\<bar> then y else x)
   \<and> (x < y \<and> y \<le> 0 \<longrightarrow> T_deriv_select x y = y)
   \<and> (y \<le> x \<and> x \<le> 0 \<longrightarrow> T_deriv_select x y = x)"
proof -
  have 1: "T_deriv r L kappa rho T P dPdr =
     (if \<bar>T_deriv_rad r L kappa rho T\<bar> > \<bar>((gamma - 1) / gamma) * (T / P) * dPdr\<bar>
      then ((gamma - 1) / gamma) * (T / P) * dPdr
      else T_deriv_rad r L kappa rho T)"
    unfolding T_deriv_def T_deriv_select_def Let_def by (rule refl)
  have 2: "gamma = 5 / 3" by (rule gamma_def)
  have 3: "T_deriv_select x y = (if \<bar>x\<bar> > \<bar>y\<bar> then y else x)" by (rule T_deriv_select_def)
  have 4: "x < y \<and> y \<le> 0 \<longrightarrow> T_deriv_select x y = y" unfolding T_deriv_select_def by auto
  have 5: "y \<le> x \<and> x \<le> 0 \<longrightarrow> T_deriv_select x y = x" unfolding T_deriv_select_def by auto
  show ?thesis using 1 2 3 4 5 by blast
qed

theorem T_deriv_selects_by_magnitude_witness:
  "T_deriv_select (- 1) (- 6 / 10 ^ 12) = - 6 / 10 ^ 12
   \<and> T_deriv_select (- 1 / 10 ^ 12) (- 6 / 10 ^ 12) = - 1 / 10 ^ 12
   \<and> ((gamma - 1) / gamma) * (15 * 10 ^ 6 / 10 ^ 18) * (- 1) = - 6 / 10 ^ 12"
proof -
  have a: "(- 1 :: real) < - 6 / 10 ^ 12 \<and> (- 6 / 10 ^ 12 :: real) \<le> 0" by simp
  have b: "(- 6 / 10 ^ 12 :: real) \<le> - 1 / 10 ^ 12 \<and> (- 1 / 10 ^ 12 :: real) \<le> 0" by simp
  have g: "gamma = 5 / 3"
    using T_deriv_selects_by_magnitude [of 1 1 1 1 1 1 1 0 0] by blast
  have 1: "T_deriv_select (- 1) (- 6 / 10 ^ 12) = - 6 / 10 ^ 12"
    using T_deriv_selects_by_magnitude [of 1 1 1 1 1 1 1 "- 1" "- 6 / 10 ^ 12"] a by blast
  have 2: "T_deriv_select (- 1 / 10 ^ 12) (- 6 / 10 ^ 12) = - 1 / 10 ^ 12"
    using T_deriv_selects_by_magnitude [of 1 1 1 1 1 1 1 "- 1 / 10 ^ 12" "- 6 / 10 ^ 12"] b by blast
  have 3: "((gamma - 1) / gamma) * (15 * 10 ^ 6 / 10 ^ 18) * (- 1) = - 6 / 10 ^ 12"
    unfolding g by simp
  show ?thesis using 1 2 3 by blast
qed

subsection \<open>Radial grid\<close>

lemma linspace_length: "length (linspace s e n) = n"
  by (simp add: linspace_def)

lemma linspace_nth: "i < n \<Longrightarrow> linspace s e n ! i = s + real i * ((e - s) / real (n - 1))"
  by (simp add: linspace_def)

lemma star_dr_eq: "2 \<le> n \<Longrightarrow> star_dr rmax n = rmax / real (n - 1)"
  by (simp add: star_dr_def linspace_nth)

lemma star_grid_length: "length (star_grid rmax n) = n"
  by (simp add: star_grid_def linspace_length)

lemma star_grid_nth:
  "2 \<le> n \<Longrightarrow> i < n \<Longrightarrow>
     star_grid rmax n ! i = real i * (rmax / real (n - 1)) + (rmax / real (n - 1)) / 2"
  by (simp add: star_grid_def linspace_nth linspace_length star_dr_eq)

lemma star_grid_last:
  "2 \<le> n \<Longrightarrow> last (star_grid rmax n) = rmax + (rmax / real (n - 1)) / 2"
proof -
  assume n: "2 \<le> n"
  then have ne: "star_grid rmax n \<noteq> []" using star_grid_length[of rmax n] by auto
  have "last (star_grid rmax n) = star_grid rmax n ! (n - 1)"
    using last_conv_nth[OF ne] by (simp add: star_grid_length)
  also have "\<dots> = real (n - 1) * (rmax / real (n - 1)) + (rmax / real (n - 1)) / 2"
    using n by (intro star_grid_nth) simp_all
  also have "real (n - 1) * (rmax / real (n - 1)) = rmax" using n by simp
  finally show ?thesis .
qed

lemma star_grid_spacing:
  "2 \<le> n \<Longrightarrow> Suc i < n \<Longrightarrow>
     star_grid rmax n ! Suc i - star_grid rmax n ! i = rmax / real (n - 1)"
proof -
  assume n: "2 \<le> n" and i: "Suc i < n"
  define d where "d = rmax / real (n - 1)"
  have "star_grid rmax n ! Suc i = real (Suc i) * d + d / 2"
    unfolding d_def using n i by (intro star_grid_nth) simp_all
  moreover have "star_grid rmax n ! i = real i * d + d / 2"
    unfolding d_def using n i by (intro star_grid_nth) simp_all
  ultimately have "star_grid rmax n ! Suc i - star_grid rmax n ! i = d"
    by (simp add: distrib_right)
  then show ?thesis unfolding d_def .
qed

lemma grid_dr_value: "(10 ^ 12 :: real) / real (100000 - 1 :: nat) = 10 ^ 12 / 99999"
  by simp

text \<open>
  C5, as the specification states it, asks for a last point \<open>r_max - dr / 2\<close>. The grid
  of the source ends at \<open>r_max + dr / 2\<close>: \<^verbatim>\<open>linspace\<close> ends at \<open>r_max\<close> and every point
  is shifted up by half a step.
\<close>

theorem grid_last_point_counterexample:
  "last (star_grid (10 ^ 12) 100000) \<noteq> 10 ^ 12 - (10 ^ 12 / 99999) / 2"
proof -
  have "last (star_grid (10 ^ 12) 100000) = 10 ^ 12 + (10 ^ 12 / 99999) / 2"
    using star_grid_last [of 100000 "10 ^ 12"] unfolding grid_dr_value by simp
  then show ?thesis by simp
qed

text \<open>
  C5, amended. The grid for \<open>r_max = 10^12\<close> and \<open>n = 100000\<close> has exactly 100000
  points, the step is \<open>dr = r_max / (n - 1)\<close>, consecutive points are \<open>dr\<close> apart, the
  first point is \<open>dr / 2\<close> and the last point is \<open>r_max + dr / 2\<close>.
\<close>

theorem grid_construction:
  "length (star_grid (10 ^ 12) 100000) = 100000
   \<and> star_dr (10 ^ 12) 100000 = 10 ^ 12 / 99999
   \<and> (\<forall>i. Suc i < 100000 \<longrightarrow>
        star_grid (10 ^ 12) 100000 ! Suc i - star_grid (10 ^ 12) 100000 ! i = 10 ^ 12 / 99999)
   \<and> star_grid (10 ^ 12) 100000 ! 0 = (10 ^ 12 / 99999) / 2
   \<and> last (star_grid (10 ^ 12) 100000) = 10 ^ 12 + (10 ^ 12 / 99999) / 2"
proof -
  have n: "(2::nat) \<le> 100000" by simp
  have 1: "length (star_grid (10 ^ 12) 100000) = 100000" by (rule star_grid_length)
  have 2: "star_dr (10 ^ 12) 100000 = 10 ^ 12 / 99999"
    using star_dr_eq [OF n, of "10 ^ 12"] unfolding grid_dr_value .
  have 3: "\<forall>i. Suc i < 100000 \<longrightarrow>
        star_grid (10 ^ 12) 100000 ! Suc i - star_grid (10 ^ 12) 100000 ! i = 10 ^ 12 / 99999"
    using star_grid_spacing [OF n, of _ "10 ^ 12"] unfolding grid_dr_value by blast
  have 4: "star_grid (10 ^ 12) 100000 ! 0 = (10 ^ 12 / 99999) / 2"
    using star_grid_nth [OF n, of 0 "10 ^ 12"] unfolding grid_dr_value by simp
  have 5: "last (star_grid (10 ^ 12) 100000) = 10 ^ 12 + (10 ^ 12 / 99999) / 2"
    using star_grid_last [OF n, of "10 ^ 12"] unfolding grid_dr_value .
  show ?thesis using 1 2 3 4 5 by blast
qed

theorem grid_construction_witness:
  "star_grid (10 ^ 12) 100000 ! Suc 99998 - star_grid (10 ^ 12) 100000 ! 99998 = 10 ^ 12 / 99999
   \<and> star_grid (10 ^ 12) 100000 ! Suc 0 - star_grid (10 ^ 12) 100000 ! 0 = 10 ^ 12 / 99999
   \<and> length (star_grid (10 ^ 12) 100000) = 100000"
proof -
  have a: "Suc 99998 < (100000::nat)" and b: "Suc 0 < (100000::nat)" by simp_all
  from grid_construction a b show ?thesis by blast
qed

subsection \<open>The loop\<close>

lemma put_shell_r: "arr_r (put_shell i s W) = arr_r W"
  by (simp add: put_shell_def)

lemma put_shell_len: "arrays_len n (put_shell i s W) = arrays_len n W"
  by (simp add: put_shell_def arrays_len_def)

lemma shell_at_put:
  "arrays_len n W \<Longrightarrow> i < n \<Longrightarrow> shell_at (put_shell i s W) j = (if j = i then s else shell_at W j)"
  by (simp add: put_shell_def arrays_len_def shell_at_def)

lemma surface_shell: "surface W j = (sh_P (shell_at W j) \<le> 0 \<or> sh_T (shell_at W j) \<le> 0 \<or> sh_rho (shell_at W j) \<le> 0)"
  by (simp add: surface_def shell_at_def)

lemma surface_cong: "shell_at W j = shell_at V j \<Longrightarrow> surface W j = surface V j"
  by (simp add: surface_shell)



lemma star_loop_stop:
  "surface (put_shell i (body i W) W) i \<Longrightarrow> star_loop body n i W = (i, put_shell i (body i W) W)"
  by (subst star_loop.simps) simp

lemma star_loop_next:
  "\<not> surface (put_shell i (body i W) W) i \<Longrightarrow> Suc i < n \<Longrightarrow>
     star_loop body n i W = star_loop body n (Suc i) (put_shell i (body i W) W)"
  by (subst star_loop.simps) simp

lemma star_loop_end:
  "\<not> surface (put_shell i (body i W) W) i \<Longrightarrow> \<not> Suc i < n \<Longrightarrow>
     star_loop body n i W = (i, put_shell i (body i W) W)"
  by (subst star_loop.simps) simp

lemma star_loop_props:
  "arrays_len n W \<Longrightarrow> i < n \<Longrightarrow> star_loop body n i W = (i', W') \<Longrightarrow>
     i \<le> i' \<and> i' < n \<and> arrays_len n W' \<and> arr_r W' = arr_r W \<and>
     (\<forall>j<i. shell_at W' j = shell_at W j) \<and>
     (\<forall>j. i \<le> j \<and> j < i' \<longrightarrow> \<not> surface W' j) \<and>
     (surface W' i' \<or> Suc i' = n)"
proof (induction body n i W rule: star_loop.induct)
  case (1 body n i W)
  let ?W1 = "put_shell i (body i W) W"
  have len1: "arrays_len n ?W1" using "1.prems"(1) by (simp add: put_shell_len)
  have at1: "\<And>j. shell_at ?W1 j = (if j = i then body i W else shell_at W j)"
    using "1.prems"(1,2) by (rule shell_at_put)
  have old1: "\<forall>j<i. shell_at ?W1 j = shell_at W j" using at1 by simp
  show ?case
  proof (cases "surface ?W1 i")
    case True
    have "(i', W') = (i, ?W1)" using star_loop_stop[of i body W n] True "1.prems"(3) by simp
    then have e: "i' = i" "W' = ?W1" by simp_all
    show ?thesis unfolding e using True len1 old1 "1.prems"(2) by (auto simp add: put_shell_r)
  next
    case False
    show ?thesis
    proof (cases "Suc i < n")
      case True
      have run: "star_loop body n (Suc i) ?W1 = (i', W')"
        using "1.prems"(3) star_loop_next[of i body W n] False True by simp
      have IH: "Suc i \<le> i' \<and> i' < n \<and> arrays_len n W' \<and> arr_r W' = arr_r ?W1 \<and>
         (\<forall>j<Suc i. shell_at W' j = shell_at ?W1 j) \<and>
         (\<forall>j. Suc i \<le> j \<and> j < i' \<longrightarrow> \<not> surface W' j) \<and>
         (surface W' i' \<or> Suc i' = n)"
        using "1.IH"[OF False True len1 True run] .
      have keep: "shell_at W' i = shell_at ?W1 i" using IH by simp
      have ns: "\<not> surface W' i" using False surface_cong[OF keep] by simp
      have a: "\<forall>j. i \<le> j \<and> j < i' \<longrightarrow> \<not> surface W' j"
      proof (intro allI impI)
        fix j assume h: "i \<le> j \<and> j < i'"
        show "\<not> surface W' j"
        proof (cases "j = i")
          case True then show ?thesis using ns by simp
        next
          case False then have "Suc i \<le> j \<and> j < i'" using h by simp
          then show ?thesis using IH by blast
        qed
      qed
      have b: "\<forall>j<i. shell_at W' j = shell_at W j"
      proof (intro allI impI)
        fix j assume "j < i"
        then have "shell_at W' j = shell_at ?W1 j" "shell_at ?W1 j = shell_at W j"
          using IH old1 by simp_all
        then show "shell_at W' j = shell_at W j" by simp
      qed
      have c: "i \<le> i'" "i' < n" "arrays_len n W'" "arr_r W' = arr_r W" "surface W' i' \<or> Suc i' = n"
        using IH by (simp_all add: put_shell_r)
      show ?thesis using a b c by blast
    next
      case nolt: False
      have "(i', W') = (i, ?W1)" using star_loop_end[of i body W n] False nolt "1.prems"(3) by simp
      then have e: "i' = i" "W' = ?W1" by simp_all
      have "Suc i = n" using nolt "1.prems"(2) by simp
      then show ?thesis unfolding e using len1 old1 "1.prems"(2) by (auto simp add: put_shell_r)
    qed
  qed
qed

lemma star_loop_body:
  "arrays_len n W \<Longrightarrow> i < n \<Longrightarrow> star_loop body n i W = (i', W') \<Longrightarrow> i \<le> j \<Longrightarrow> j \<le> i' \<Longrightarrow>
     \<exists>V. arrays_len n V \<and> arr_r V = arr_r W' \<and> (\<forall>m<j. shell_at V m = shell_at W' m) \<and>
         shell_at W' j = body j V"
proof (induction body n i W rule: star_loop.induct)
  case (1 body n i W)
  let ?W1 = "put_shell i (body i W) W"
  have len1: "arrays_len n ?W1" using "1.prems"(1) by (simp add: put_shell_len)
  have at1: "\<And>m. shell_at ?W1 m = (if m = i then body i W else shell_at W m)"
    using "1.prems"(1,2) by (rule shell_at_put)
  note props = star_loop_props[OF "1.prems"(1,2,3)]
  show ?case
  proof (cases "\<not> surface ?W1 i \<and> Suc i < n")
    case True
    then have c: "\<not> surface ?W1 i" "Suc i < n" by simp_all
    have run: "star_loop body n (Suc i) ?W1 = (i', W')"
      using "1.prems"(3) star_loop_next[of i body W n] c by simp
    show ?thesis
    proof (cases "j = i")
      case True
      from star_loop_props[OF len1 c(2) run] have "shell_at W' i = shell_at ?W1 i" by simp
      then have "shell_at W' j = body j W" using at1 True by simp
      moreover have "\<forall>m<j. shell_at W m = shell_at W' m" using props True by simp
      moreover have "arr_r W = arr_r W'" using props by simp
      ultimately show ?thesis using "1.prems"(1) by blast
    next
      case False
      then have "Suc i \<le> j" using "1.prems"(4) by simp
      then show ?thesis using "1.IH"[OF c len1 c(2) run _ "1.prems"(5)] by simp
    qed
  next
    case False
    have "(i', W') = (i, ?W1)"
    proof (cases "surface ?W1 i")
      case True then show ?thesis using star_loop_stop[of i body W n] True "1.prems"(3) by simp
    next
      case ns: False
      then have nl: "\<not> Suc i < n" using False by simp
      show ?thesis using star_loop_end[of i body W n] ns nl "1.prems"(3) by simp
    qed
    then have e: "i' = i" "W' = ?W1" by simp_all
    then have ji: "j = i" using "1.prems"(4,5) by simp
    have "shell_at W' j = body j W" using at1 e ji by simp
    moreover have "\<forall>m<j. shell_at W m = shell_at W' m" using props ji by simp
    moreover have "arr_r W = arr_r W'" using props by simp
    ultimately show ?thesis using "1.prems"(1) by blast
  qed
qed

lemma star_init_len: "arrays_len nstep (star_init crho ckappa rmax nstep T0 P0 X Y)"
  by (simp add: star_init_def arrays_len_def Let_def star_grid_length)

lemma star_init_r: "arr_r (star_init crho ckappa rmax nstep T0 P0 X Y) = star_grid rmax nstep"
  by (simp add: star_init_def Let_def)

lemma star_init_shell0:
  "0 < nstep \<Longrightarrow> shell_at (star_init crho ckappa rmax nstep T0 P0 X Y) 0 =
     \<lparr> sh_M = 0, sh_P = P0, sh_T = T0, sh_L = 0, sh_rho = crho P0 T0 (star_mbar X Y),
       sh_kappa = ckappa X, sh_epsilon = calc_epsilon (crho P0 T0 (star_mbar X Y)) T0 X \<rparr>"
  by (simp add: star_init_def shell_at_def Let_def)

lemma star_march_props:
  assumes "2 \<le> nstep" and "star_march crho ckappa body rmax nstep T0 P0 X Y = (i, W)"
  shows "1 \<le> i" and "i < nstep" and "arrays_len nstep W" and "arr_r W = star_grid rmax nstep"
    and "shell_at W 0 = shell_at (star_init crho ckappa rmax nstep T0 P0 X Y) 0"
    and "\<And>j. 1 \<le> j \<Longrightarrow> j < i \<Longrightarrow> \<not> surface W j"
    and "surface W i \<or> Suc i = nstep"
proof -
  have lt: "1 < nstep" using assms(1) by simp
  note p = star_loop_props [OF star_init_len lt assms(2)[unfolded star_march_def]]
  show "1 \<le> i" "i < nstep" "arrays_len nstep W" "surface W i \<or> Suc i = nstep"
    using p by simp_all
  show "arr_r W = star_grid rmax nstep" using p by (simp add: star_init_r)
  show "shell_at W 0 = shell_at (star_init crho ckappa rmax nstep T0 P0 X Y) 0"
    using p by simp
  show "\<And>j. 1 \<le> j \<Longrightarrow> j < i \<Longrightarrow> \<not> surface W j" using p by blast
qed

lemma star_march_body:
  assumes "2 \<le> nstep" and "star_march crho ckappa body rmax nstep T0 P0 X Y = (i, W)"
    and "1 \<le> j" and "j \<le> i"
  shows "\<exists>V. arrays_len nstep V \<and> arr_r V = arr_r W \<and> (\<forall>m<j. shell_at V m = shell_at W m) \<and>
           shell_at W j = body X (star_mbar X Y) (star_dr rmax nstep) j V"
proof -
  have lt: "1 < nstep" using assms(1) by simp
  show ?thesis
    using star_loop_body [OF star_init_len lt assms(2)[unfolded star_march_def] assms(3,4)] .
qed

lemma make_star_gen_result:
  assumes "2 \<le> nstep" and "1 + 3 * X + (1 / 2) * Y \<noteq> 0"
    and "star_march crho ckappa body rmax nstep T0 P0 X Y = (i, W)"
  shows "make_star_gen crho ckappa body rmax nstep T0 P0 X Y = Inr (finish i W)"
  using assms by (simp add: make_star_gen_def)

lemma cut_arrays_len:
  "arrays_len n W \<Longrightarrow> m \<le> n \<Longrightarrow> arrays_len m (cut_arrays m W)"
  by (simp add: arrays_len_def cut_arrays_def)

lemma cut_arrays_shell:
  "j < m \<Longrightarrow> shell_at (cut_arrays m W) j = shell_at W j"
  by (simp add: shell_at_def cut_arrays_def)

lemma cut_arrays_r:
  "j < m \<Longrightarrow> arr_r (cut_arrays m W) ! j = arr_r W ! j"
  by (simp add: cut_arrays_def)

lemma cut_arrays_full:
  "arrays_len n W \<Longrightarrow> cut_arrays n W = W"
  by (simp add: arrays_len_def cut_arrays_def)

lemma euler_body_cong:
  assumes "shell_at V (j - 1) = shell_at W (j - 1)" and "arr_r V ! (j - 1) = arr_r W ! (j - 1)"
  shows "euler_body X mbar dr j V = euler_body X mbar dr j W"
proof -
  have f: "\<And>U. arr_M U ! (j - 1) = sh_M (shell_at U (j - 1))"
    "\<And>U. arr_P U ! (j - 1) = sh_P (shell_at U (j - 1))"
    "\<And>U. arr_T U ! (j - 1) = sh_T (shell_at U (j - 1))"
    "\<And>U. arr_L U ! (j - 1) = sh_L (shell_at U (j - 1))"
    "\<And>U. arr_rho U ! (j - 1) = sh_rho (shell_at U (j - 1))"
    "\<And>U. arr_kappa U ! (j - 1) = sh_kappa (shell_at U (j - 1))"
    "\<And>U. arr_epsilon U ! (j - 1) = sh_epsilon (shell_at U (j - 1))"
    by (simp_all add: shell_at_def)
  show ?thesis
    unfolding euler_body_def Let_def f assms(1) assms(2) by (rule refl)
qed

lemma star_march_euler:
  assumes "2 \<le> nstep" and "star_march crho ckappa euler_body rmax nstep T0 P0 X Y = (i, W)"
    and "1 \<le> j" and "j \<le> i"
  shows "shell_at W j = euler_body X (star_mbar X Y) (star_dr rmax nstep) j W"
proof -
  obtain V where V: "arr_r V = arr_r W" "\<forall>m<j. shell_at V m = shell_at W m"
    "shell_at W j = euler_body X (star_mbar X Y) (star_dr rmax nstep) j V"
    using star_march_body [OF assms] by blast
  have "j - 1 < j" using assms(3) by simp
  then have "shell_at V (j - 1) = shell_at W (j - 1)" using V(2) by blast
  moreover have "arr_r V ! (j - 1) = arr_r W ! (j - 1)" using V(1) by simp
  ultimately have "euler_body X (star_mbar X Y) (star_dr rmax nstep) j V
      = euler_body X (star_mbar X Y) (star_dr rmax nstep) j W"
    by (rule euler_body_cong)
  then show ?thesis using V(3) by simp
qed

subsection \<open>The first steps of the filled-in loop\<close>

lemma P_deriv_no_mass: "P_deriv r 0 rho = 0"
  by (simp add: P_deriv_def)

lemma T_deriv_no_flux: "T_deriv r 0 kappa rho T P 0 = 0"
  by (simp add: T_deriv_def T_deriv_rad_def T_deriv_select_def)

lemma shell_at_fields:
  "arr_M U ! j = sh_M (shell_at U j)" "arr_P U ! j = sh_P (shell_at U j)"
  "arr_T U ! j = sh_T (shell_at U j)" "arr_L U ! j = sh_L (shell_at U j)"
  "arr_rho U ! j = sh_rho (shell_at U j)" "arr_kappa U ! j = sh_kappa (shell_at U j)"
  "arr_epsilon U ! j = sh_epsilon (shell_at U j)"
  by (simp_all add: shell_at_def)

lemma euler_first_shell:
  assumes "2 \<le> nstep" and "star_march calc_rho calc_kappa euler_body rmax nstep T0 P0 X Y = (i, W)"
  shows "arr_P W ! 1 = P0" and "arr_T W ! 1 = T0"
    and "arr_rho W ! 1 = calc_rho P0 T0 (star_mbar X Y)"
    and "arr_M W ! 1 = M_deriv (star_grid rmax nstep ! 0) (calc_rho P0 T0 (star_mbar X Y)) * star_dr rmax nstep"
proof -
  note p = star_march_props [OF assms]
  have s0: "shell_at W 0 = \<lparr> sh_M = 0, sh_P = P0, sh_T = T0, sh_L = 0,
       sh_rho = calc_rho P0 T0 (star_mbar X Y), sh_kappa = calc_kappa X,
       sh_epsilon = calc_epsilon (calc_rho P0 T0 (star_mbar X Y)) T0 X \<rparr>"
    using p(5) assms(1) by (simp add: star_init_shell0)
  have s1: "shell_at W 1 = euler_body X (star_mbar X Y) (star_dr rmax nstep) 1 W"
    using star_march_euler [OF assms, of 1] p(1) by simp
  have e: "euler_body X (star_mbar X Y) (star_dr rmax nstep) 1 W =
      \<lparr> sh_M = M_deriv (star_grid rmax nstep ! 0) (calc_rho P0 T0 (star_mbar X Y)) * star_dr rmax nstep,
        sh_P = P0, sh_T = T0,
        sh_L = L_deriv (star_grid rmax nstep ! 0) (calc_rho P0 T0 (star_mbar X Y))
                 (calc_epsilon (calc_rho P0 T0 (star_mbar X Y)) T0 X) * star_dr rmax nstep,
        sh_rho = calc_rho P0 T0 (star_mbar X Y), sh_kappa = calc_kappa X,
        sh_epsilon = calc_epsilon (calc_rho P0 T0 (star_mbar X Y)) T0 X \<rparr>"
    unfolding euler_body_def Let_def shell_at_fields s0 p(4)
    by (simp add: s0 P_deriv_no_mass T_deriv_no_flux)
  show "arr_P W ! 1 = P0" "arr_T W ! 1 = T0"
    "arr_rho W ! 1 = calc_rho P0 T0 (star_mbar X Y)"
    "arr_M W ! 1 = M_deriv (star_grid rmax nstep ! 0) (calc_rho P0 T0 (star_mbar X Y)) * star_dr rmax nstep"
    unfolding shell_at_fields s1 e by simp_all
qed

lemma euler_second_pressure:
  assumes "2 \<le> nstep" and "star_march calc_rho calc_kappa euler_body rmax nstep T0 P0 X Y = (i, W)"
    and "2 \<le> i"
  shows "arr_P W ! 2 = P0 + P_deriv (star_grid rmax nstep ! 1)
           (M_deriv (star_grid rmax nstep ! 0) (calc_rho P0 T0 (star_mbar X Y)) * star_dr rmax nstep)
           (calc_rho P0 T0 (star_mbar X Y)) * star_dr rmax nstep"
proof -
  note p = star_march_props [OF assms(1,2)]
  note f = euler_first_shell [OF assms(1,2)]
  have s2: "shell_at W 2 = euler_body X (star_mbar X Y) (star_dr rmax nstep) 2 W"
    using star_march_euler [OF assms(1,2), of 2] assms(3) by simp
  have "arr_P W ! 2 = sh_P (euler_body X (star_mbar X Y) (star_dr rmax nstep) 2 W)"
    unfolding shell_at_fields s2 ..
  also have "\<dots> = arr_P W ! 1 + P_deriv (arr_r W ! 1) (arr_M W ! 1) (arr_rho W ! 1) * star_dr rmax nstep"
    by (simp add: euler_body_def Let_def)
  finally show ?thesis unfolding f p(4) .
qed

lemma sample_rho: "calc_rho (10 ^ 18) (15 * 10 ^ 6) (star_mbar (7 / 10) (28 / 100)) = 850000 / 1701"
  by (simp add: calc_rho_def star_mbar_def k_def mH_def)

lemma sample_run:
  assumes "star_march calc_rho calc_kappa euler_body (10 ^ 12) 3 (15 * 10 ^ 6) (10 ^ 18)
             (7 / 10) (28 / 100) = (i, W)"
  shows "i = 2" and "arr_P W ! 1 = 10 ^ 18" and "arr_T W ! 1 = 15 * 10 ^ 6"
    and "arr_rho W ! 1 = 850000 / 1701" and "arr_P W ! 2 < 0"
proof -
  have n: "(2::nat) \<le> 3" by simp
  note p = star_march_props [OF n assms]
  note f = euler_first_shell [OF n assms, unfolded sample_rho]
  show P1: "arr_P W ! 1 = 10 ^ 18" and T1: "arr_T W ! 1 = 15 * 10 ^ 6"
    and rho1: "arr_rho W ! 1 = 850000 / 1701"
    using f by simp_all
  have ns: "\<not> surface W 1" unfolding surface_def P1 T1 rho1 by simp
  have "i \<noteq> 1" using p(7) ns by auto
  then show i: "i = 2" using p(1,2) by simp
  have r0: "star_grid (10 ^ 12) 3 ! 0 = 10 ^ 12 / 4"
    using star_grid_nth [OF n, of 0 "10 ^ 12"] by simp
  have r1: "star_grid (10 ^ 12) 3 ! 1 = 3 * 10 ^ 12 / 4"
    using star_grid_nth [OF n, of 1 "10 ^ 12"] by simp
  have dr: "star_dr (10 ^ 12) 3 = 10 ^ 12 / 2"
    using star_dr_eq [OF n, of "10 ^ 12"] by simp
  have "arr_P W ! 2 = 10 ^ 18 + P_deriv (3 * 10 ^ 12 / 4)
           (M_deriv (10 ^ 12 / 4) (850000 / 1701) * (10 ^ 12 / 2)) (850000 / 1701) * (10 ^ 12 / 2)"
    using euler_second_pressure [OF n assms] i unfolding sample_rho r0 r1 dr by simp
  also have "\<dots> = 10 ^ 18 - pi * (48407500000000000000000000000 / 26040609)"
    by (simp add: P_deriv_def M_deriv_def G_def)
  finally have P2: "arr_P W ! 2 = 10 ^ 18 - pi * (48407500000000000000000000000 / 26040609)" .
  have "2 * (48407500000000000000000000000 / 26040609) \<le> pi * (48407500000000000000000000000 / 26040609)"
    using pi_ge_two by simp
  then show "arr_P W ! 2 < 0" unfolding P2 by simp
qed

subsection \<open>Termination of the driver\<close>

lemma star_march_first_surface:
  assumes "2 \<le> nstep" and "star_march crho ckappa body rmax nstep T0 P0 X Y = (i, W)"
    and "1 \<le> m" and "m < nstep" and "surface W m" and "\<forall>j. 1 \<le> j \<and> j < m \<longrightarrow> \<not> surface W j"
  shows "i = m"
proof -
  note p = star_march_props [OF assms(1,2)]
  have "\<not> i < m"
  proof
    assume lt: "i < m"
    then have "\<not> surface W i" using assms(6) p(1) by blast
    then have "Suc i = nstep" using p(7) by blast
    then show False using lt assms(4) by simp
  qed
  moreover have "\<not> m < i" using p(6) [OF assms(3)] assms(5) by blast
  ultimately show ?thesis by simp
qed

lemma make_star_gen_Inr:
  assumes "make_star_gen crho ckappa body rmax nstep T0 P0 X Y = Inr res"
  shows "2 \<le> nstep" and "1 + 3 * X + (1 / 2) * Y \<noteq> 0"
    and "res = finish (fst (star_march crho ckappa body rmax nstep T0 P0 X Y))
                 (snd (star_march crho ckappa body rmax nstep T0 P0 X Y))"
  using assms by (auto simp add: make_star_gen_def split: if_splits prod.splits)

text \<open>
  C1. Whatever fills the blanks, a run of \<^verbatim>\<open>make_star\<close> that gets past its first two
  assignments returns; the loop leaves \<open>i\<close> with \<open>1 \<le> i < nstep\<close>; no index from 1
  below \<open>i\<close> meets the surface test, and \<open>i\<close> meets it unless it is the last index
  of the grid, so that \<open>i\<close> is the first index \<open>m \<ge> 1\<close> meeting the test whenever one
  exists. The printed values are \<open>r[i]\<close>, \<open>M[i]\<close>, \<open>L[i]\<close>, and the eight returned
  arrays are the working arrays cut to the indices \<open>0 .. i\<close>: each has \<open>i + 1\<close>
  entries, equal to the working entries.
\<close>

theorem make_star_stops_at_first_surface:
  assumes "2 \<le> nstep" and "1 + 3 * X + (1 / 2) * Y \<noteq> 0"
    and "star_march crho ckappa body rmax nstep T0 P0 X Y = (i, W)"
  shows "make_star_gen crho ckappa body rmax nstep T0 P0 X Y
           = Inr ((arr_r W ! i, arr_M W ! i, arr_L W ! i), cut_arrays (Suc i) W)
       \<and> 1 \<le> i \<and> i < nstep
       \<and> (\<forall>j. 1 \<le> j \<and> j < i \<longrightarrow> \<not> surface W j)
       \<and> (surface W i \<or> i = nstep - 1)
       \<and> (\<forall>m. 1 \<le> m \<and> m < nstep \<and> surface W m \<and> (\<forall>j. 1 \<le> j \<and> j < m \<longrightarrow> \<not> surface W j)
              \<longrightarrow> i = m)
       \<and> arrays_len (Suc i) (cut_arrays (Suc i) W)
       \<and> (\<forall>j. j \<le> i \<longrightarrow> shell_at (cut_arrays (Suc i) W) j = shell_at W j
                         \<and> arr_r (cut_arrays (Suc i) W) ! j = arr_r W ! j)"
proof -
  note p = star_march_props [OF assms(1,3)]
  have 1: "make_star_gen crho ckappa body rmax nstep T0 P0 X Y
           = Inr ((arr_r W ! i, arr_M W ! i, arr_L W ! i), cut_arrays (Suc i) W)"
    using make_star_gen_result [OF assms] by (simp add: finish_def)
  have 2: "\<forall>j. 1 \<le> j \<and> j < i \<longrightarrow> \<not> surface W j" using p(6) by blast
  have 3: "surface W i \<or> i = nstep - 1" using p(7) by auto
  have 4: "\<forall>m. 1 \<le> m \<and> m < nstep \<and> surface W m \<and> (\<forall>j. 1 \<le> j \<and> j < m \<longrightarrow> \<not> surface W j)
              \<longrightarrow> i = m"
    using star_march_first_surface [OF assms(1,3)] by blast
  have 5: "arrays_len (Suc i) (cut_arrays (Suc i) W)"
    using cut_arrays_len [OF p(3), of "Suc i"] p(2) by simp
  have 6: "\<forall>j. j \<le> i \<longrightarrow> shell_at (cut_arrays (Suc i) W) j = shell_at W j
                         \<and> arr_r (cut_arrays (Suc i) W) ! j = arr_r W ! j"
    by (simp add: cut_arrays_shell cut_arrays_r)
  show ?thesis using 1 2 3 4 5 6 p(1,2) by blast
qed

text \<open>
  A run with \<open>nstep = 3\<close> on the sample star of the notebook: index 1 is positive, the
  pressure of index 2 is negative, and the loop stops there.
\<close>

theorem make_star_stops_at_first_surface_witness:
  "make_star_with (10 ^ 12) 3 (15 * 10 ^ 6) (10 ^ 18) (7 / 10) (28 / 100)
     = Inr (finish 2 (snd (star_march calc_rho calc_kappa euler_body (10 ^ 12) 3 (15 * 10 ^ 6)
                             (10 ^ 18) (7 / 10) (28 / 100))))
   \<and> fst (star_march calc_rho calc_kappa euler_body (10 ^ 12) 3 (15 * 10 ^ 6) (10 ^ 18)
            (7 / 10) (28 / 100)) = 2
   \<and> \<not> surface (snd (star_march calc_rho calc_kappa euler_body (10 ^ 12) 3 (15 * 10 ^ 6)
                       (10 ^ 18) (7 / 10) (28 / 100))) 1
   \<and> surface (snd (star_march calc_rho calc_kappa euler_body (10 ^ 12) 3 (15 * 10 ^ 6)
                     (10 ^ 18) (7 / 10) (28 / 100))) 2
   \<and> arrays_len 3 (cut_arrays 3 (snd (star_march calc_rho calc_kappa euler_body (10 ^ 12) 3
                                       (15 * 10 ^ 6) (10 ^ 18) (7 / 10) (28 / 100))))"
proof -
  obtain i W where m: "star_march calc_rho calc_kappa euler_body (10 ^ 12) 3 (15 * 10 ^ 6)
      (10 ^ 18) (7 / 10) (28 / 100) = (i, W)"
    by (cases "star_march calc_rho calc_kappa euler_body (10 ^ 12) 3 (15 * 10 ^ 6)
      (10 ^ 18) (7 / 10) (28 / 100)")
  have n: "(2::nat) \<le> 3" and d: "1 + 3 * (7 / 10) + (1 / 2) * (28 / 100) \<noteq> (0::real)"
    by simp_all
  note t = make_star_stops_at_first_surface [OF n d m]
  note s = sample_run [OF m]
  have i: "i = 2" by (rule s(1))
  have one: "1 \<le> (1::nat) \<and> (1::nat) < i" using i by simp
  have a: "\<not> surface W 1" using t one by blast
  have b: "surface W 2" using s(5) by (simp add: surface_def)
  have c: "arrays_len 3 (cut_arrays 3 W)" using t i by (simp add: eval_nat_numeral)
  have e: "make_star_with (10 ^ 12) 3 (15 * 10 ^ 6) (10 ^ 18) (7 / 10) (28 / 100) = Inr (finish 2 W)"
    using t i by (simp add: make_star_with_def finish_def eval_nat_numeral)
  show ?thesis unfolding m fst_conv snd_conv using e i a b c by blast
qed

subsection \<open>Two runs of \<^verbatim>\<open>make_star\<close> itself\<close>

text \<open>
  With no hydrogen the energy rate and the luminosity are zero, the radiative gradient is
  zero and the temperature stays at \<open>T0\<close>. When the central pressure is low the mass
  and the pressure drop stay small, and the pressure stays positive over the whole grid:
  the loop then uses up the grid. The bounds below are those of the explicit Euler steps
  themselves.
\<close>

lemma calc_epsilon_no_hydrogen: "calc_epsilon rho T 0 = 0"
  by (simp add: calc_epsilon_def)

lemma T_deriv_select_zero: "T_deriv_select 0 y = 0"
  by (simp add: T_deriv_select_def)

lemma T_deriv_no_luminosity: "T_deriv r 0 kappa rho T P dPdr = 0"
proof -
  have "T_deriv_rad r 0 kappa rho T = 0" by (simp add: T_deriv_rad_def)
  then show ?thesis unfolding T_deriv_def Let_def by (simp only: T_deriv_select_zero)
qed

lemma L_deriv_no_source: "L_deriv r rho 0 = 0"
  by (simp add: L_deriv_def)

lemma star_march_euler_step:
  assumes "2 \<le> nstep" and "star_march calc_rho calc_kappa euler_body rmax nstep T0 P0 X Y = (i, W)"
    and "Suc j \<le> i"
  shows "arr_M W ! Suc j = arr_M W ! j + M_deriv (arr_r W ! j) (arr_rho W ! j) * star_dr rmax nstep"
    and "arr_P W ! Suc j = arr_P W ! j
           + P_deriv (arr_r W ! j) (arr_M W ! j) (arr_rho W ! j) * star_dr rmax nstep"
    and "arr_T W ! Suc j = arr_T W ! j
           + T_deriv (arr_r W ! j) (arr_L W ! j) (arr_kappa W ! j) (arr_rho W ! j) (arr_T W ! j)
               (arr_P W ! j) (P_deriv (arr_r W ! j) (arr_M W ! j) (arr_rho W ! j))
             * star_dr rmax nstep"
    and "arr_L W ! Suc j = arr_L W ! j
           + L_deriv (arr_r W ! j) (arr_rho W ! j) (arr_epsilon W ! j) * star_dr rmax nstep"
    and "arr_rho W ! Suc j = calc_rho (arr_P W ! Suc j) (arr_T W ! Suc j) (star_mbar X Y)"
    and "arr_epsilon W ! Suc j = calc_epsilon (arr_rho W ! Suc j) (arr_T W ! Suc j) X"
proof -
  have one: "1 \<le> Suc j" by simp
  have s: "shell_at W (Suc j) = euler_body X (star_mbar X Y) (star_dr rmax nstep) (Suc j) W"
    by (rule star_march_euler [OF assms(1,2) one assms(3)])
  have f: "arr_M W ! Suc j = sh_M (euler_body X (star_mbar X Y) (star_dr rmax nstep) (Suc j) W)"
    "arr_P W ! Suc j = sh_P (euler_body X (star_mbar X Y) (star_dr rmax nstep) (Suc j) W)"
    "arr_T W ! Suc j = sh_T (euler_body X (star_mbar X Y) (star_dr rmax nstep) (Suc j) W)"
    "arr_L W ! Suc j = sh_L (euler_body X (star_mbar X Y) (star_dr rmax nstep) (Suc j) W)"
    "arr_rho W ! Suc j = sh_rho (euler_body X (star_mbar X Y) (star_dr rmax nstep) (Suc j) W)"
    "arr_epsilon W ! Suc j = sh_epsilon (euler_body X (star_mbar X Y) (star_dr rmax nstep) (Suc j) W)"
    unfolding s [symmetric] by (simp_all add: shell_at_def)
  show "arr_M W ! Suc j = arr_M W ! j + M_deriv (arr_r W ! j) (arr_rho W ! j) * star_dr rmax nstep"
    unfolding f by (simp add: euler_body_def Let_def)
  show "arr_P W ! Suc j = arr_P W ! j
           + P_deriv (arr_r W ! j) (arr_M W ! j) (arr_rho W ! j) * star_dr rmax nstep"
    unfolding f by (simp add: euler_body_def Let_def)
  show "arr_T W ! Suc j = arr_T W ! j
           + T_deriv (arr_r W ! j) (arr_L W ! j) (arr_kappa W ! j) (arr_rho W ! j) (arr_T W ! j)
               (arr_P W ! j) (P_deriv (arr_r W ! j) (arr_M W ! j) (arr_rho W ! j))
             * star_dr rmax nstep"
    unfolding f by (simp add: euler_body_def Let_def)
  show "arr_L W ! Suc j = arr_L W ! j
           + L_deriv (arr_r W ! j) (arr_rho W ! j) (arr_epsilon W ! j) * star_dr rmax nstep"
    unfolding f by (simp add: euler_body_def Let_def)
  show "arr_rho W ! Suc j = calc_rho (arr_P W ! Suc j) (arr_T W ! Suc j) (star_mbar X Y)"
    unfolding f by (simp add: euler_body_def Let_def)
  show "arr_epsilon W ! Suc j = calc_epsilon (arr_rho W ! Suc j) (arr_T W ! Suc j) X"
    unfolding f by (simp add: euler_body_def Let_def)
qed

lemma weak_gravity_invariant:
  fixes R T0 P0 Y :: real and n :: nat
  defines "q \<equiv> star_mbar 0 Y / (k * T0)"
  defines "d \<equiv> star_dr R n"
  defines "A \<equiv> 4 * pi * (q * P0) * d"
  defines "D \<equiv> G * A * (q * P0) * d * real n"
  assumes n: "2 \<le> n" and R: "0 < R" and T0: "0 < T0" and P0: "0 < P0" and Y: "0 \<le> Y"
    and m: "star_march calc_rho calc_kappa euler_body R n T0 P0 0 Y = (i, W)"
    and small: "D * real n < P0"
  shows "j \<le> i \<Longrightarrow>
     arr_T W ! j = T0 \<and> arr_L W ! j = 0 \<and> arr_epsilon W ! j = 0
     \<and> 0 \<le> arr_M W ! j \<and> arr_M W ! j \<le> A * real j * (arr_r W ! j)\<^sup>2
     \<and> arr_P W ! j \<le> P0 \<and> P0 - D * real j \<le> arr_P W ! j
     \<and> arr_rho W ! j = q * arr_P W ! j"
proof (induction j)
  case 0
  note p = star_march_props [OF n m]
  have s0: "shell_at W 0 = \<lparr> sh_M = 0, sh_P = P0, sh_T = T0, sh_L = 0,
       sh_rho = calc_rho P0 T0 (star_mbar 0 Y), sh_kappa = calc_kappa 0,
       sh_epsilon = calc_epsilon (calc_rho P0 T0 (star_mbar 0 Y)) T0 0 \<rparr>"
    using p(5) n by (simp add: star_init_shell0)
  show ?case
    unfolding shell_at_fields s0 by (simp add: calc_epsilon_no_hydrogen calc_rho_def q_def)
next
  case (Suc j)
  note p = star_march_props [OF n m]
  have ji: "j \<le> i" and jn: "j < n" "Suc j < n" using Suc.prems p(2) by simp_all
  note IH = Suc.IH [OF ji]
  note st = star_march_euler_step [OF n m Suc.prems, folded d_def]
  have qpos: "0 < q" unfolding q_def star_mbar_def using mH_pos k_pos T0 Y by simp
  have dpos: "0 < d" unfolding d_def using star_dr_eq [OF n, of R] R n by simp
  have Apos: "0 \<le> A" unfolding A_def using qpos P0 dpos by simp
  have Dpos: "0 \<le> D" unfolding D_def using Apos G_pos qpos P0 dpos by simp
  define r where "r = arr_r W ! j"
  define r' where "r' = arr_r W ! Suc j"
  define h where "h = R / real (n - 1)"
  have rv: "r = real j * h + h / 2"
    unfolding r_def p(4) h_def using star_grid_nth [OF n jn(1)] .
  have rv': "r' = real (Suc j) * h + h / 2"
    unfolding r'_def p(4) h_def using star_grid_nth [OF n jn(2)] .
  have step: "0 < h" unfolding h_def using R n by simp
  have "0 \<le> real j * h" using step by simp
  then have rpos: "0 < r" unfolding rv using step by linarith
  have "real (Suc j) * h = real j * h + h" by (simp add: distrib_right)
  then have rle: "r \<le> r'" unfolding rv rv' using step by linarith
  have r2: "r\<^sup>2 \<le> r'\<^sup>2" using rpos rle by (simp add: power_mono)
  define M where "M = arr_M W ! j"
  define P where "P = arr_P W ! j"
  have T: "arr_T W ! j = T0" and L: "arr_L W ! j = 0" and E: "arr_epsilon W ! j = 0"
    and M0: "0 \<le> M" and MA: "M \<le> A * real j * r\<^sup>2"
    and PP: "P \<le> P0" and PD: "P0 - D * real j \<le> P" and rho: "arr_rho W ! j = q * P"
    using IH unfolding M_def P_def r_def by simp_all
  have "D * real j \<le> D * real n" using Dpos jn(1) by (simp add: mult_left_mono)
  then have Ppos: "0 < P" using PD small by linarith
  have rho0: "0 \<le> q * P" using qpos Ppos by simp
  have rhole: "q * P \<le> q * P0" using qpos PP by simp
  \<comment> \<open>mass\<close>
  have Mn: "arr_M W ! Suc j = M + 4 * pi * r\<^sup>2 * (q * P) * d"
    using st(1) unfolding M_def r_def rho M_deriv_def P_def by simp
  have inc0: "0 \<le> 4 * pi * r\<^sup>2 * (q * P) * d" using rho0 dpos by simp
  have "4 * pi * r\<^sup>2 * (q * P) * d \<le> 4 * pi * r\<^sup>2 * (q * P0) * d"
    using rhole dpos by (simp add: mult_left_mono mult_right_mono)
  also have "\<dots> = A * r\<^sup>2" unfolding A_def by simp
  finally have inc: "4 * pi * r\<^sup>2 * (q * P) * d \<le> A * r\<^sup>2" .
  have M1: "0 \<le> arr_M W ! Suc j" unfolding Mn using M0 inc0 by simp
  have "arr_M W ! Suc j \<le> A * real j * r\<^sup>2 + A * r\<^sup>2" unfolding Mn using MA inc by simp
  also have "\<dots> = A * real (Suc j) * r\<^sup>2" by (simp add: algebra_simps)
  also have "\<dots> \<le> A * real (Suc j) * r'\<^sup>2"
    using r2 Apos by (simp add: mult_left_mono)
  finally have M2: "arr_M W ! Suc j \<le> A * real (Suc j) * (arr_r W ! Suc j)\<^sup>2"
    unfolding r'_def .
  \<comment> \<open>pressure\<close>
  have Pn: "arr_P W ! Suc j = P - G * M * (q * P) / r\<^sup>2 * d"
    using st(2) unfolding M_def r_def rho P_deriv_def P_def by simp
  have g0: "0 \<le> G * M * (q * P) / r\<^sup>2 * d"
    using G_pos M0 rho0 dpos by simp
  have "G * M * (q * P) \<le> G * (A * real j * r\<^sup>2) * (q * P0)"
  proof -
    have u: "G * M \<le> G * (A * real j * r\<^sup>2)" using G_pos MA by simp
    have v: "0 \<le> G * M" using G_pos M0 by simp
    show ?thesis by (rule mult_mono' [OF u rhole v rho0])
  qed
  then have "G * M * (q * P) / r\<^sup>2 \<le> G * (A * real j * r\<^sup>2) * (q * P0) / r\<^sup>2"
    by (rule divide_right_mono) simp
  also have "\<dots> = G * A * real j * (q * P0)" using rpos by simp
  also have "\<dots> \<le> G * A * real n * (q * P0)"
    using G_pos Apos qpos P0 jn(1) by (simp add: mult_left_mono mult_right_mono)
  finally have "G * M * (q * P) / r\<^sup>2 \<le> G * A * real n * (q * P0)" .
  then have "G * M * (q * P) / r\<^sup>2 * d \<le> G * A * real n * (q * P0) * d"
    by (rule mult_right_mono) (use dpos in simp)
  also have "G * A * real n * (q * P0) * d = D" unfolding D_def by simp
  finally have gD: "G * M * (q * P) / r\<^sup>2 * d \<le> D" .
  have P1: "arr_P W ! Suc j \<le> P0" unfolding Pn using PP g0 by linarith
  have "P0 - D * real j - D \<le> arr_P W ! Suc j" unfolding Pn using PD gD by linarith
  moreover have "D * real (Suc j) = D * real j + D" by (simp add: algebra_simps)
  ultimately have P2: "P0 - D * real (Suc j) \<le> arr_P W ! Suc j" by linarith
  \<comment> \<open>temperature, luminosity, density, energy rate\<close>
  have T1: "arr_T W ! Suc j = T0"
    using st(3) unfolding L T by (simp add: T_deriv_no_luminosity)
  have L1: "arr_L W ! Suc j = 0"
    using st(4) unfolding L E by (simp add: L_deriv_no_source)
  have E1: "arr_epsilon W ! Suc j = 0"
    using st(6) by (simp add: calc_epsilon_no_hydrogen)
  have R1: "arr_rho W ! Suc j = q * arr_P W ! Suc j"
    using st(5) unfolding T1 by (simp add: calc_rho_def q_def)
  show ?case using T1 L1 E1 M1 M2 P1 P2 R1 by blast
qed

lemma thin_star_density: "star_mbar 0 1 / (k * (15 * 10 ^ 6)) * 10 ^ 10 = 17 / 1575000"
  by (simp add: star_mbar_def mH_def k_def)

lemma thin_star_small:
  "G * (4 * pi * (star_mbar 0 1 / (k * (15 * 10 ^ 6)) * 10 ^ 10) * star_dr (10 ^ 12) 100000)
     * (star_mbar 0 1 / (k * (15 * 10 ^ 6)) * 10 ^ 10) * star_dr (10 ^ 12) 100000
     * real (100000::nat) * real (100000::nat) < 10 ^ 10"
proof -
  have n: "(2::nat) \<le> 100000" by simp
  have dv: "star_dr (10 ^ 12) 100000 = 10 ^ 12 / 99999"
    using star_dr_eq [OF n, of "10 ^ 12"] by simp
  define b :: real where
    "b = G * 4 * (17 / 1575000) * (10 ^ 12 / 99999) * (17 / 1575000) * (10 ^ 12 / 99999) * 100000 * 100000"
  have bpos: "0 < b" unfolding b_def G_def by simp
  have b4: "4 * b < 10 ^ 10" unfolding b_def G_def by simp
  have "pi * b < 4 * b" using pi_less_4 bpos by simp
  then have lt: "pi * b < 10 ^ 10" using b4 by linarith
  have eq: "G * (4 * pi * (17 / 1575000) * (10 ^ 12 / 99999)) * (17 / 1575000) * (10 ^ 12 / 99999)
     * real (100000::nat) * real (100000::nat) = pi * b"
    unfolding b_def by simp
  show ?thesis unfolding thin_star_density dv eq by (rule lt)
qed

lemma thin_star_run:
  assumes "star_march calc_rho calc_kappa euler_body (10 ^ 12) 100000 (15 * 10 ^ 6) (10 ^ 10) 0 1
             = (i, W)"
  shows "i = 99999" and "\<not> surface W i" and "\<And>j. 1 \<le> j \<Longrightarrow> j < 100000 \<Longrightarrow> \<not> surface W j"
proof -
  have n: "(2::nat) \<le> 100000" by simp
  note p = star_march_props [OF n assms]
  have R: "(0::real) < 10 ^ 12" and T0: "(0::real) < 15 * 10 ^ 6" and P0: "(0::real) < 10 ^ 10"
    and Y: "(0::real) \<le> 1" by simp_all
  note inv = weak_gravity_invariant [OF n R T0 P0 Y assms thin_star_small, of i]
  define D where "D = G * (4 * pi * (star_mbar 0 1 / (k * (15 * 10 ^ 6)) * 10 ^ 10) * star_dr (10 ^ 12) 100000)
     * (star_mbar 0 1 / (k * (15 * 10 ^ 6)) * 10 ^ 10) * star_dr (10 ^ 12) 100000 * real (100000::nat)"
  have Dn: "D * real (100000::nat) < 10 ^ 10" unfolding D_def by (rule thin_star_small)
  have qpos: "0 < star_mbar 0 1 / (k * (15 * 10 ^ 6))"
    by (simp add: star_mbar_def mH_def k_def)
  have T: "arr_T W ! i = 15 * 10 ^ 6" and PD: "10 ^ 10 - D * real i \<le> arr_P W ! i"
    and rho: "arr_rho W ! i = star_mbar 0 1 / (k * (15 * 10 ^ 6)) * arr_P W ! i"
    using inv unfolding D_def by simp_all
  have Dpos: "0 \<le> D"
    unfolding D_def thin_star_density using G_pos star_dr_eq [OF n, of "10 ^ 12"] by simp
  have "D * real i \<le> D * real (100000::nat)" using Dpos p(2) by (simp add: mult_left_mono)
  then have Ppos: "0 < arr_P W ! i" using PD Dn by linarith
  have rpos: "0 < arr_rho W ! i" unfolding rho using qpos Ppos by (rule mult_pos_pos)
  show ns: "\<not> surface W i" unfolding surface_def using Ppos T rpos by simp
  then show i: "i = 99999" using p(7) by simp
  show "\<And>j. 1 \<le> j \<Longrightarrow> j < 100000 \<Longrightarrow> \<not> surface W j"
  proof -
    fix j :: nat assume j: "1 \<le> j" "j < 100000"
    show "\<not> surface W j"
    proof (cases "j = i")
      case True then show ?thesis using ns by simp
    next
      case False
      then have "j < i" using i j by simp
      then show ?thesis using p(6) j(1) by blast
    qed
  qed
qed

text \<open>With \<open>P0 = 0\<close> the pressure of index 1 is zero and the loop stops there.\<close>

lemma zero_pressure_run:
  assumes "2 \<le> nstep"
    and "star_march calc_rho calc_kappa euler_body rmax nstep T0 0 X Y = (i, W)"
  shows "i = 1" and "arr_P W ! 1 = 0"
proof -
  note f = euler_first_shell [OF assms]
  show P1: "arr_P W ! 1 = 0" by (rule f(1))
  then have "surface W 1" by (simp add: surface_def)
  then show "i = 1"
    using star_march_first_surface [OF assms, of 1] assms(1) by simp
qed

subsection \<open>A grid that is used up\<close>

text \<open>
  C2, amended. When no index from 1 to \<open>nstep - 1\<close> meets the surface test, the loop
  leaves \<open>i = nstep - 1\<close>, the printed values are the entries of the last grid index and
  the returned arrays are the complete working arrays: the same pair of printed values
  and arrays as after a surface, with nothing that names the reason of termination.
\<close>

theorem grid_exhausted_returns_plain_profile:
  assumes "2 \<le> nstep" and "1 + 3 * X + (1 / 2) * Y \<noteq> 0"
    and "star_march crho ckappa body rmax nstep T0 P0 X Y = (i, W)"
    and "\<forall>j. 1 \<le> j \<and> j < nstep \<longrightarrow> \<not> surface W j"
  shows "i = nstep - 1
       \<and> make_star_gen crho ckappa body rmax nstep T0 P0 X Y
           = Inr ((arr_r W ! (nstep - 1), arr_M W ! (nstep - 1), arr_L W ! (nstep - 1)), W)"
proof -
  note p = star_march_props [OF assms(1,3)]
  have r: "make_star_gen crho ckappa body rmax nstep T0 P0 X Y = Inr (finish i W)"
    by (rule make_star_gen_result [OF assms(1,2,3)])
  have ns: "\<not> surface W i" using assms(4) p(1,2) by blast
  then have e: "Suc i = nstep" using p(7) by blast
  then have i: "i = nstep - 1" by simp
  have "cut_arrays (Suc i) W = W" using cut_arrays_full [OF p(3)] e by simp
  then have "make_star_gen crho ckappa body rmax nstep T0 P0 X Y
           = Inr ((arr_r W ! (nstep - 1), arr_M W ! (nstep - 1), arr_L W ! (nstep - 1)), W)"
    using r i by (simp add: finish_def)
  then show ?thesis using i by simp
qed

text \<open>
  \<^verbatim>\<open>make_star\<close> itself on a helium star of low central pressure, \<open>T0 = 1.5e7\<close>,
  \<open>P0 = 1e10\<close>, \<open>X = 0\<close>, \<open>Y = 1\<close>: the grid is used up.
\<close>

theorem grid_exhausted_returns_plain_profile_witness:
  "fst (star_march calc_rho calc_kappa euler_body (10 ^ 12) 100000 (15 * 10 ^ 6) (10 ^ 10) 0 1)
     = 100000 - 1
   \<and> make_star_gen calc_rho calc_kappa euler_body (10 ^ 12) 100000 (15 * 10 ^ 6) (10 ^ 10) 0 1
       = Inr ((arr_r (snd (star_march calc_rho calc_kappa euler_body (10 ^ 12) 100000
                             (15 * 10 ^ 6) (10 ^ 10) 0 1)) ! (100000 - 1),
               arr_M (snd (star_march calc_rho calc_kappa euler_body (10 ^ 12) 100000
                             (15 * 10 ^ 6) (10 ^ 10) 0 1)) ! (100000 - 1),
               arr_L (snd (star_march calc_rho calc_kappa euler_body (10 ^ 12) 100000
                             (15 * 10 ^ 6) (10 ^ 10) 0 1)) ! (100000 - 1)),
              snd (star_march calc_rho calc_kappa euler_body (10 ^ 12) 100000
                     (15 * 10 ^ 6) (10 ^ 10) 0 1))"
proof -
  obtain i W where m: "star_march calc_rho calc_kappa euler_body (10 ^ 12) 100000 (15 * 10 ^ 6)
      (10 ^ 10) 0 1 = (i, W)"
    by (cases "star_march calc_rho calc_kappa euler_body (10 ^ 12) 100000 (15 * 10 ^ 6)
      (10 ^ 10) 0 1")
  have n: "(2::nat) \<le> 100000" and d: "1 + 3 * 0 + (1 / 2) * 1 \<noteq> (0::real)"
    by simp_all
  have all: "\<forall>j. 1 \<le> j \<and> j < 100000 \<longrightarrow> \<not> surface W j"
    using thin_star_run(3) [OF m] by blast
  note t = grid_exhausted_returns_plain_profile [OF n d m all]
  show ?thesis unfolding m fst_conv snd_conv using t by blast
qed

text \<open>
  C2, as the specification states it, asks for a result tagged \<open>GridExhausted\<close>. The
  source has no such tag. Both calls below are calls of \<^verbatim>\<open>make_star\<close> itself. The
  first uses up its grid without the surface test firing, the second stops on the surface
  test at index 1; both return through the same \<open>finish\<close>, the printed triple and the
  arrays, and the first is reported as a stellar radius \<open>r_star = r[99999]\<close> like any
  other.
\<close>

theorem grid_exhausted_untagged_counterexample:
  "\<not> surface (snd (star_march calc_rho calc_kappa euler_body (10 ^ 12) 100000 (15 * 10 ^ 6)
                     (10 ^ 10) 0 1)) 99999
   \<and> make_star (15 * 10 ^ 6) (10 ^ 10) 0 1
       = Inr (finish 99999 (snd (star_march calc_rho calc_kappa euler_body (10 ^ 12) 100000
                                   (15 * 10 ^ 6) (10 ^ 10) 0 1)))
   \<and> surface (snd (star_march calc_rho calc_kappa euler_body (10 ^ 12) 100000 (15 * 10 ^ 6)
                     0 (7 / 10) (28 / 100))) 1
   \<and> make_star (15 * 10 ^ 6) 0 (7 / 10) (28 / 100)
       = Inr (finish 1 (snd (star_march calc_rho calc_kappa euler_body (10 ^ 12) 100000
                               (15 * 10 ^ 6) 0 (7 / 10) (28 / 100))))"
proof -
  obtain i W where m: "star_march calc_rho calc_kappa euler_body (10 ^ 12) 100000 (15 * 10 ^ 6)
      (10 ^ 10) 0 1 = (i, W)"
    by (cases "star_march calc_rho calc_kappa euler_body (10 ^ 12) 100000 (15 * 10 ^ 6)
      (10 ^ 10) 0 1")
  obtain i' W' where m': "star_march calc_rho calc_kappa euler_body (10 ^ 12) 100000 (15 * 10 ^ 6)
      0 (7 / 10) (28 / 100) = (i', W')"
    by (cases "star_march calc_rho calc_kappa euler_body (10 ^ 12) 100000 (15 * 10 ^ 6)
      0 (7 / 10) (28 / 100)")
  have n: "(2::nat) \<le> 100000" by simp
  have d: "1 + 3 * 0 + (1 / 2) * 1 \<noteq> (0::real)" by simp
  have d': "1 + 3 * (7 / 10) + (1 / 2) * (28 / 100) \<noteq> (0::real)" by simp
  have i: "i = 99999" and ns: "\<not> surface W i" using thin_star_run(1,2) [OF m] by simp_all
  have a: "\<not> surface W 99999" using ns i by simp
  have b: "make_star (15 * 10 ^ 6) (10 ^ 10) 0 1 = Inr (finish 99999 W)"
    unfolding make_star_def make_star_with_def using make_star_gen_result [OF n d m] i by simp
  have i': "i' = 1" and "arr_P W' ! 1 = 0" using zero_pressure_run [OF n m'] by simp_all
  then have c: "surface W' 1" by (simp add: surface_def)
  have e: "make_star (15 * 10 ^ 6) 0 (7 / 10) (28 / 100) = Inr (finish 1 W')"
    unfolding make_star_def make_star_with_def using make_star_gen_result [OF n d' m'] i' by simp
  show ?thesis unfolding m m' snd_conv using a b c e by blast
qed

lemma finish_length: "arrays_len n W \<Longrightarrow> i < n \<Longrightarrow> length (arr_P (snd (finish i W))) = Suc i"
  by (simp add: finish_def cut_arrays_def arrays_len_def)

lemma make_star_gen_runs:
  assumes "2 \<le> nstep" and "1 + 3 * X + (1 / 2) * Y \<noteq> 0"
  shows "\<not> isl (make_star_gen crho ckappa body rmax nstep T0 P0 X Y)"
    and "1 \<le> fst (star_march crho ckappa body rmax nstep T0 P0 X Y)"
    and "length (arr_P (snd (projr (make_star_gen crho ckappa body rmax nstep T0 P0 X Y))))
           = Suc (fst (star_march crho ckappa body rmax nstep T0 P0 X Y))"
proof -
  obtain i W where m: "star_march crho ckappa body rmax nstep T0 P0 X Y = (i, W)"
    by (cases "star_march crho ckappa body rmax nstep T0 P0 X Y")
  note p = star_march_props [OF assms(1) m]
  note r = make_star_gen_result [OF assms m]
  show "\<not> isl (make_star_gen crho ckappa body rmax nstep T0 P0 X Y)" using r by simp
  show "1 \<le> fst (star_march crho ckappa body rmax nstep T0 P0 X Y)" using m p(1) by simp
  show "length (arr_P (snd (projr (make_star_gen crho ckappa body rmax nstep T0 P0 X Y))))
           = Suc (fst (star_march crho ckappa body rmax nstep T0 P0 X Y))"
    using r m finish_length [OF p(3) p(2)] by simp
qed




subsection \<open>The retained profile\<close>

lemma cut_arrays_nth:
  assumes "j < m"
  shows "arr_r (cut_arrays m W) ! j = arr_r W ! j" "arr_M (cut_arrays m W) ! j = arr_M W ! j"
    "arr_P (cut_arrays m W) ! j = arr_P W ! j" "arr_T (cut_arrays m W) ! j = arr_T W ! j"
    "arr_L (cut_arrays m W) ! j = arr_L W ! j" "arr_rho (cut_arrays m W) ! j = arr_rho W ! j"
    "arr_kappa (cut_arrays m W) ! j = arr_kappa W ! j"
    "arr_epsilon (cut_arrays m W) ! j = arr_epsilon W ! j"
  using assms by (simp_all add: cut_arrays_def)

lemma make_star_gen_out:
  assumes "make_star_gen crho ckappa body rmax nstep T0 P0 X Y = Inr (star, out)"
  obtains i W where "2 \<le> nstep" and "1 + 3 * X + (1 / 2) * Y \<noteq> 0"
    and "star_march crho ckappa body rmax nstep T0 P0 X Y = (i, W)"
    and "out = cut_arrays (Suc i) W" and "length (arr_P out) = Suc i"
    and "star = (arr_r W ! i, arr_M W ! i, arr_L W ! i)"
proof -
  obtain i W where m: "star_march crho ckappa body rmax nstep T0 P0 X Y = (i, W)"
    by (cases "star_march crho ckappa body rmax nstep T0 P0 X Y")
  note g = make_star_gen_Inr [OF assms]
  note p = star_march_props [OF g(1) m]
  have o: "out = cut_arrays (Suc i) W" and s: "star = (arr_r W ! i, arr_M W ! i, arr_L W ! i)"
    using g(3) m by (simp_all add: finish_def)
  have "length (arr_P out) = Suc i"
    using finish_length [OF p(3) p(2)] o by (simp add: finish_def)
  then show ?thesis using that g(1,2) m o s by blast
qed

lemma projr_pair: "\<not> isl x \<Longrightarrow> x = Inr (fst (projr x), snd (projr x))"
  by (cases x) simp_all

text \<open>
  C4, amended. In the returned profile the surface test is false at every index \<open>j\<close>
  with \<open>1 \<le> j\<close> below the last one: none of \<open>P \<le> 0\<close>, \<open>T \<le> 0\<close>, \<open>rho \<le> 0\<close>
  holds there. The last retained index is the step at which the surface test fired
  whenever the run stopped before the end of the grid, so one of the three holds there.
  Index 0 holds the boundary values, which are never tested: \<open>P0\<close>, \<open>T0\<close> and the
  density computed from them.
\<close>

theorem retained_steps_pass_surface_test:
  assumes "make_star_gen crho ckappa body rmax nstep T0 P0 X Y = Inr (star, out)"
  shows "(\<forall>j. 1 \<le> j \<and> Suc j < length (arr_P out) \<longrightarrow> \<not> surface out j)
       \<and> (length (arr_P out) < nstep \<longrightarrow> surface out (length (arr_P out) - 1))
       \<and> arr_P out ! 0 = P0 \<and> arr_T out ! 0 = T0
       \<and> arr_rho out ! 0 = crho P0 T0 (star_mbar X Y)"
proof -
  obtain i W where n: "2 \<le> nstep"
    and m: "star_march crho ckappa body rmax nstep T0 P0 X Y = (i, W)"
    and o: "out = cut_arrays (Suc i) W" and l: "length (arr_P out) = Suc i"
    using make_star_gen_out [OF assms] by blast
  note p = star_march_props [OF n m]
  have A: "\<forall>j. 1 \<le> j \<and> Suc j < length (arr_P out) \<longrightarrow> \<not> surface out j"
  proof (intro allI impI)
    fix j assume j: "1 \<le> j \<and> Suc j < length (arr_P out)"
    then have ji: "j < i" using l by simp
    then have "\<not> surface W j" using p(6) j by blast
    moreover have "j < Suc i" using ji by simp
    ultimately show "\<not> surface out j"
      unfolding o by (simp add: cut_arrays_nth surface_def)
  qed
  have B: "length (arr_P out) < nstep \<longrightarrow> surface out (length (arr_P out) - 1)"
  proof
    assume "length (arr_P out) < nstep"
    then have "surface W i" using p(7) l by auto
    then have "surface out i"
      unfolding o by (simp add: surface_def cut_arrays_nth)
    then show "surface out (length (arr_P out) - 1)" using l by simp
  qed
  have "shell_at W 0 = \<lparr> sh_M = 0, sh_P = P0, sh_T = T0, sh_L = 0,
       sh_rho = crho P0 T0 (star_mbar X Y), sh_kappa = ckappa X,
       sh_epsilon = calc_epsilon (crho P0 T0 (star_mbar X Y)) T0 X \<rparr>"
    using p(5) n by (simp add: star_init_shell0)
  then have C: "arr_P out ! 0 = P0 \<and> arr_T out ! 0 = T0 \<and> arr_rho out ! 0 = crho P0 T0 (star_mbar X Y)"
    unfolding o by (simp add: shell_at_fields cut_arrays_shell)
  show ?thesis using A B C by blast
qed

lemma sample_result:
  "\<not> isl (make_star_with (10 ^ 12) 3 (15 * 10 ^ 6) (10 ^ 18) (7 / 10) (28 / 100))"
  "length (arr_P (snd (projr (make_star_with (10 ^ 12) 3 (15 * 10 ^ 6) (10 ^ 18) (7 / 10) (28 / 100))))) = 3"
  "arr_P (snd (projr (make_star_with (10 ^ 12) 3 (15 * 10 ^ 6) (10 ^ 18) (7 / 10) (28 / 100)))) ! 2 < 0"
proof -
  obtain i W where m: "star_march calc_rho calc_kappa euler_body (10 ^ 12) 3 (15 * 10 ^ 6)
      (10 ^ 18) (7 / 10) (28 / 100) = (i, W)"
    by (cases "star_march calc_rho calc_kappa euler_body (10 ^ 12) 3 (15 * 10 ^ 6)
      (10 ^ 18) (7 / 10) (28 / 100)")
  have n: "(2::nat) \<le> 3" and d: "1 + 3 * (7 / 10) + (1 / 2) * (28 / 100) \<noteq> (0::real)"
    by simp_all
  note s = sample_run [OF m]
  note r = make_star_gen_runs [OF n d, of calc_rho calc_kappa euler_body "10 ^ 12" "15 * 10 ^ 6" "10 ^ 18"]
  have e: "make_star_with (10 ^ 12) 3 (15 * 10 ^ 6) (10 ^ 18) (7 / 10) (28 / 100) = Inr (finish 2 W)"
    unfolding make_star_with_def using make_star_gen_result [OF n d m] s(1) by simp
  show "\<not> isl (make_star_with (10 ^ 12) 3 (15 * 10 ^ 6) (10 ^ 18) (7 / 10) (28 / 100))"
    using e by simp
  show "length (arr_P (snd (projr (make_star_with (10 ^ 12) 3 (15 * 10 ^ 6) (10 ^ 18) (7 / 10) (28 / 100))))) = 3"
    using r(3) m s(1) by (simp add: make_star_with_def)
  show "arr_P (snd (projr (make_star_with (10 ^ 12) 3 (15 * 10 ^ 6) (10 ^ 18) (7 / 10) (28 / 100)))) ! 2 < 0"
    unfolding e using s(5) by (simp add: finish_def cut_arrays_nth)
qed

lemma zero_pressure_result:
  "\<not> isl (make_star (15 * 10 ^ 6) 0 (7 / 10) (28 / 100))"
  "length (arr_P (snd (projr (make_star (15 * 10 ^ 6) 0 (7 / 10) (28 / 100))))) = 2"
  "arr_P (snd (projr (make_star (15 * 10 ^ 6) 0 (7 / 10) (28 / 100)))) ! 1 = 0"
proof -
  obtain i W where m: "star_march calc_rho calc_kappa euler_body (10 ^ 12) 100000 (15 * 10 ^ 6)
      0 (7 / 10) (28 / 100) = (i, W)"
    by (cases "star_march calc_rho calc_kappa euler_body (10 ^ 12) 100000 (15 * 10 ^ 6)
      0 (7 / 10) (28 / 100)")
  have n: "(2::nat) \<le> 100000" and d: "1 + 3 * (7 / 10) + (1 / 2) * (28 / 100) \<noteq> (0::real)"
    by simp_all
  note z = zero_pressure_run [OF n m]
  note r = make_star_gen_runs [OF n d, of calc_rho calc_kappa euler_body "10 ^ 12" "15 * 10 ^ 6" 0]
  have e: "make_star (15 * 10 ^ 6) 0 (7 / 10) (28 / 100) = Inr (finish 1 W)"
    unfolding make_star_def make_star_with_def using make_star_gen_result [OF n d m] z(1) by simp
  show "\<not> isl (make_star (15 * 10 ^ 6) 0 (7 / 10) (28 / 100))" using e by simp
  show "length (arr_P (snd (projr (make_star (15 * 10 ^ 6) 0 (7 / 10) (28 / 100))))) = 2"
    using r(3) m z(1) by (simp add: make_star_def make_star_with_def)
  show "arr_P (snd (projr (make_star (15 * 10 ^ 6) 0 (7 / 10) (28 / 100)))) ! 1 = 0"
    unfolding e using z(2) by (simp add: finish_def cut_arrays_nth)
qed

text \<open>
  C4, as the specification states it, fails at the last retained index, which is the
  step that met the surface test: the run with \<open>nstep = 3\<close> on the sample star returns
  three entries, the last with negative pressure; \<^verbatim>\<open>make_star\<close> itself with \<open>P0 = 0\<close>
  returns two entries, the last with pressure zero.
\<close>

theorem retained_last_step_counterexample:
  "\<not> isl (make_star_with (10 ^ 12) 3 (15 * 10 ^ 6) (10 ^ 18) (7 / 10) (28 / 100))
   \<and> length (arr_P (snd (projr (make_star_with (10 ^ 12) 3 (15 * 10 ^ 6) (10 ^ 18) (7 / 10) (28 / 100))))) = 3
   \<and> arr_P (snd (projr (make_star_with (10 ^ 12) 3 (15 * 10 ^ 6) (10 ^ 18) (7 / 10) (28 / 100)))) ! 2 < 0
   \<and> \<not> isl (make_star (15 * 10 ^ 6) 0 (7 / 10) (28 / 100))
   \<and> length (arr_P (snd (projr (make_star (15 * 10 ^ 6) 0 (7 / 10) (28 / 100))))) = 2
   \<and> arr_P (snd (projr (make_star (15 * 10 ^ 6) 0 (7 / 10) (28 / 100)))) ! 1 = 0"
  using sample_result zero_pressure_result by blast

lemma thin_star_result:
  "\<not> isl (make_star (15 * 10 ^ 6) (10 ^ 10) 0 1)"
  "length (arr_P (snd (projr (make_star (15 * 10 ^ 6) (10 ^ 10) 0 1)))) = 100000"
proof -
  obtain i W where m: "star_march calc_rho calc_kappa euler_body (10 ^ 12) 100000 (15 * 10 ^ 6)
      (10 ^ 10) 0 1 = (i, W)"
    by (cases "star_march calc_rho calc_kappa euler_body (10 ^ 12) 100000 (15 * 10 ^ 6)
      (10 ^ 10) 0 1")
  have n: "(2::nat) \<le> 100000" and d: "1 + 3 * 0 + (1 / 2) * 1 \<noteq> (0::real)"
    by simp_all
  note r = make_star_gen_runs [OF n d, of calc_rho calc_kappa euler_body "10 ^ 12" "15 * 10 ^ 6" "10 ^ 10"]
  show "\<not> isl (make_star (15 * 10 ^ 6) (10 ^ 10) 0 1)"
    unfolding make_star_def make_star_with_def by (rule r(1))
  show "length (arr_P (snd (projr (make_star (15 * 10 ^ 6) (10 ^ 10) 0 1)))) = 100000"
    unfolding make_star_def make_star_with_def using r(3) m thin_star_run(1) [OF m] by simp
qed

text \<open>Index 1 of the profile of the helium star of low central pressure.\<close>

theorem retained_steps_pass_surface_test_witness:
  "\<not> surface (snd (projr (make_star (15 * 10 ^ 6) (10 ^ 10) 0 1))) 1
   \<and> arr_P (snd (projr (make_star (15 * 10 ^ 6) (10 ^ 10) 0 1))) ! 0 = 10 ^ 10
   \<and> arr_T (snd (projr (make_star (15 * 10 ^ 6) (10 ^ 10) 0 1))) ! 0 = 15 * 10 ^ 6"
proof -
  let ?res = "make_star (15 * 10 ^ 6) (10 ^ 10) 0 1"
  have e: "make_star_gen calc_rho calc_kappa euler_body (10 ^ 12) 100000 (15 * 10 ^ 6) (10 ^ 10) 0 1
      = Inr (fst (projr ?res), snd (projr ?res))"
    using projr_pair [OF thin_star_result(1)] by (simp add: make_star_def make_star_with_def)
  have j: "1 \<le> (1::nat) \<and> Suc 1 < length (arr_P (snd (projr ?res)))"
    using thin_star_result(2) by simp
  show ?thesis using retained_steps_pass_surface_test [OF e] j by blast
qed

subsection \<open>The update of one step and the mean particle mass\<close>

text \<open>
  C6. With the blanks filled in from the specification, every index \<open>j \<ge> 1\<close> of the
  returned profile is an explicit Euler step from index \<open>j - 1\<close>: each of \<open>M, P, T, L\<close>
  is the previous value plus the derivative times \<open>dr = rmax / (nstep - 1)\<close>, all
  derivatives being evaluated on the entries of index \<open>j - 1\<close> (the density of the
  previous step included, and the pressure derivative passed to \<^verbatim>\<open>T_deriv\<close> being that
  same one), and \<open>rho, kappa, epsilon\<close> of index \<open>j\<close> are computed from the new \<open>P\<close>
  and \<open>T\<close> and the composition.
\<close>

theorem euler_update_uses_previous_step:
  assumes "make_star_with rmax nstep T0 P0 X Y = Inr (star, out)"
    and "1 \<le> j" and "j < length (arr_P out)"
  shows "arr_M out ! j = arr_M out ! (j - 1)
           + M_deriv (arr_r out ! (j - 1)) (arr_rho out ! (j - 1)) * (rmax / real (nstep - 1))
       \<and> arr_P out ! j = arr_P out ! (j - 1)
           + P_deriv (arr_r out ! (j - 1)) (arr_M out ! (j - 1)) (arr_rho out ! (j - 1))
             * (rmax / real (nstep - 1))
       \<and> arr_T out ! j = arr_T out ! (j - 1)
           + T_deriv (arr_r out ! (j - 1)) (arr_L out ! (j - 1)) (arr_kappa out ! (j - 1))
               (arr_rho out ! (j - 1)) (arr_T out ! (j - 1)) (arr_P out ! (j - 1))
               (P_deriv (arr_r out ! (j - 1)) (arr_M out ! (j - 1)) (arr_rho out ! (j - 1)))
             * (rmax / real (nstep - 1))
       \<and> arr_L out ! j = arr_L out ! (j - 1)
           + L_deriv (arr_r out ! (j - 1)) (arr_rho out ! (j - 1)) (arr_epsilon out ! (j - 1))
             * (rmax / real (nstep - 1))
       \<and> arr_rho out ! j = calc_rho (arr_P out ! j) (arr_T out ! j)
                              (mH * 2 / (1 + 3 * X + (1 / 2) * Y))
       \<and> arr_kappa out ! j = calc_kappa X
       \<and> arr_epsilon out ! j = calc_epsilon (arr_rho out ! j) (arr_T out ! j) X"
proof -
  obtain i W where n: "2 \<le> nstep"
    and m: "star_march calc_rho calc_kappa euler_body rmax nstep T0 P0 X Y = (i, W)"
    and o: "out = cut_arrays (Suc i) W" and l: "length (arr_P out) = Suc i"
    using make_star_gen_out [OF assms(1)[unfolded make_star_with_def]] by blast
  have ji: "j \<le> i" using assms(3) l by simp
  have j1: "j < Suc i" "j - 1 < Suc i" using ji by simp_all
  have s: "shell_at W j = euler_body X (star_mbar X Y) (star_dr rmax nstep) j W"
    by (rule star_march_euler [OF n m assms(2) ji])
  have W: "arr_M W ! j = sh_M (euler_body X (star_mbar X Y) (star_dr rmax nstep) j W)"
    "arr_P W ! j = sh_P (euler_body X (star_mbar X Y) (star_dr rmax nstep) j W)"
    "arr_T W ! j = sh_T (euler_body X (star_mbar X Y) (star_dr rmax nstep) j W)"
    "arr_L W ! j = sh_L (euler_body X (star_mbar X Y) (star_dr rmax nstep) j W)"
    "arr_rho W ! j = sh_rho (euler_body X (star_mbar X Y) (star_dr rmax nstep) j W)"
    "arr_kappa W ! j = sh_kappa (euler_body X (star_mbar X Y) (star_dr rmax nstep) j W)"
    "arr_epsilon W ! j = sh_epsilon (euler_body X (star_mbar X Y) (star_dr rmax nstep) j W)"
    unfolding s [symmetric] by (simp_all add: shell_at_def)
  have c: "arr_r out ! (j - 1) = arr_r W ! (j - 1)" "arr_M out ! (j - 1) = arr_M W ! (j - 1)"
    "arr_P out ! (j - 1) = arr_P W ! (j - 1)" "arr_T out ! (j - 1) = arr_T W ! (j - 1)"
    "arr_L out ! (j - 1) = arr_L W ! (j - 1)" "arr_rho out ! (j - 1) = arr_rho W ! (j - 1)"
    "arr_kappa out ! (j - 1) = arr_kappa W ! (j - 1)"
    "arr_epsilon out ! (j - 1) = arr_epsilon W ! (j - 1)"
    "arr_M out ! j = arr_M W ! j" "arr_P out ! j = arr_P W ! j" "arr_T out ! j = arr_T W ! j"
    "arr_L out ! j = arr_L W ! j" "arr_rho out ! j = arr_rho W ! j"
    "arr_kappa out ! j = arr_kappa W ! j" "arr_epsilon out ! j = arr_epsilon W ! j"
    unfolding o using j1 by (simp_all add: cut_arrays_nth)
  have dr: "star_dr rmax nstep = rmax / real (nstep - 1)" by (rule star_dr_eq [OF n])
  show ?thesis
    unfolding c W by (simp add: euler_body_def Let_def dr star_mbar_def)
qed

text \<open>The second step of the three-entry profile of the sample star.\<close>

theorem euler_update_uses_previous_step_witness:
  "arr_P (snd (projr (make_star_with (10 ^ 12) 3 (15 * 10 ^ 6) (10 ^ 18) (7 / 10) (28 / 100)))) ! 2
     = arr_P (snd (projr (make_star_with (10 ^ 12) 3 (15 * 10 ^ 6) (10 ^ 18) (7 / 10) (28 / 100)))) ! (2 - 1)
       + P_deriv
           (arr_r (snd (projr (make_star_with (10 ^ 12) 3 (15 * 10 ^ 6) (10 ^ 18) (7 / 10) (28 / 100)))) ! (2 - 1))
           (arr_M (snd (projr (make_star_with (10 ^ 12) 3 (15 * 10 ^ 6) (10 ^ 18) (7 / 10) (28 / 100)))) ! (2 - 1))
           (arr_rho (snd (projr (make_star_with (10 ^ 12) 3 (15 * 10 ^ 6) (10 ^ 18) (7 / 10) (28 / 100)))) ! (2 - 1))
         * (10 ^ 12 / real (3 - 1))
   \<and> arr_kappa (snd (projr (make_star_with (10 ^ 12) 3 (15 * 10 ^ 6) (10 ^ 18) (7 / 10) (28 / 100)))) ! 2
       = calc_kappa (7 / 10)"
proof -
  let ?res = "make_star_with (10 ^ 12) 3 (15 * 10 ^ 6) (10 ^ 18) (7 / 10) (28 / 100)"
  have e: "?res = Inr (fst (projr ?res), snd (projr ?res))"
    by (rule projr_pair [OF sample_result(1)])
  have j: "(1::nat) \<le> 2" "2 < length (arr_P (snd (projr ?res)))"
    using sample_result(2) by simp_all
  show ?thesis using euler_update_uses_previous_step [OF e j] by blast
qed

text \<open>
  C10. Whatever fills the blanks, the mean particle mass of \<^verbatim>\<open>make_star\<close> is
  \<open>2 mH / (1 + 3 X + 0.5 Y)\<close>, which is positive for \<open>0 \<le> X\<close>, \<open>0 \<le> Y\<close>,
  \<open>X + Y \<le> 1\<close>, and entry 0 of the returned density is \<^verbatim>\<open>calc_rho\<close> of \<open>P0\<close>, \<open>T0\<close>
  and this mass.
\<close>

theorem make_star_mean_particle_mass:
  assumes "make_star_gen crho ckappa body rmax nstep T0 P0 X Y = Inr (star, out)"
  shows "arr_rho out ! 0 = crho P0 T0 (mH * 2 / (1 + 3 * X + (1 / 2) * Y))
       \<and> star_mbar X Y = mH * 2 / (1 + 3 * X + (1 / 2) * Y)
       \<and> (0 \<le> X \<and> 0 \<le> Y \<and> X + Y \<le> 1 \<longrightarrow> 0 < mH * 2 / (1 + 3 * X + (1 / 2) * Y))"
proof -
  obtain i W where n: "2 \<le> nstep"
    and m: "star_march crho ckappa body rmax nstep T0 P0 X Y = (i, W)"
    and o: "out = cut_arrays (Suc i) W"
    using make_star_gen_out [OF assms] by blast
  note p = star_march_props [OF n m]
  have "shell_at W 0 = \<lparr> sh_M = 0, sh_P = P0, sh_T = T0, sh_L = 0,
       sh_rho = crho P0 T0 (star_mbar X Y), sh_kappa = ckappa X,
       sh_epsilon = calc_epsilon (crho P0 T0 (star_mbar X Y)) T0 X \<rparr>"
    using p(5) n by (simp add: star_init_shell0)
  then have A: "arr_rho out ! 0 = crho P0 T0 (mH * 2 / (1 + 3 * X + (1 / 2) * Y))"
    unfolding o by (simp add: shell_at_fields cut_arrays_shell star_mbar_def)
  have B: "star_mbar X Y = mH * 2 / (1 + 3 * X + (1 / 2) * Y)" by (rule star_mbar_def)
  have C: "0 \<le> X \<and> 0 \<le> Y \<and> X + Y \<le> 1 \<longrightarrow> 0 < mH * 2 / (1 + 3 * X + (1 / 2) * Y)"
  proof
    assume h: "0 \<le> X \<and> 0 \<le> Y \<and> X + Y \<le> 1"
    then have "0 < 1 + 3 * X + (1 / 2) * Y" by simp
    then show "0 < mH * 2 / (1 + 3 * X + (1 / 2) * Y)" using mH_pos by simp
  qed
  show ?thesis using A B C by blast
qed

text \<open>\<^verbatim>\<open>make_star\<close> itself on the sample star of the notebook.\<close>

theorem make_star_mean_particle_mass_witness:
  "arr_rho (snd (projr (make_star (15 * 10 ^ 6) (10 ^ 18) (7 / 10) (28 / 100)))) ! 0
     = calc_rho (10 ^ 18) (15 * 10 ^ 6) (mH * 2 / (1 + 3 * (7 / 10) + (1 / 2) * (28 / 100)))
   \<and> 0 < mH * 2 / (1 + 3 * (7 / 10) + (1 / 2) * (28 / 100))"
proof -
  let ?res = "make_star (15 * 10 ^ 6) (10 ^ 18) (7 / 10) (28 / 100)"
  have n: "(2::nat) \<le> 100000" and d: "1 + 3 * (7 / 10) + (1 / 2) * (28 / 100) \<noteq> (0::real)"
    by simp_all
  have "\<not> isl ?res"
    unfolding make_star_def make_star_with_def by (rule make_star_gen_runs(1) [OF n d])
  then have "?res = Inr (fst (projr ?res), snd (projr ?res))" by (rule projr_pair)
  then have e: "make_star_gen calc_rho calc_kappa euler_body (10 ^ 12) 100000 (15 * 10 ^ 6) (10 ^ 18)
      (7 / 10) (28 / 100) = Inr (fst (projr ?res), snd (projr ?res))"
    by (simp add: make_star_def make_star_with_def)
  have v: "(0::real) \<le> 7 / 10 \<and> (0::real) \<le> 28 / 100 \<and> (7 / 10 :: real) + 28 / 100 \<le> 1" by simp
  show ?thesis using make_star_mean_particle_mass [OF e] v by blast
qed

end
